theory Spec2Isabelle
  imports Complex_Main "HOL-Library.Stream"
begin

section \<open>Numbers and the random stream\<close>

text \<open>
  The simulation computes with JavaScript numbers. For the simulation they are modelled as
  real numbers with exact arithmetic: the rounding of IEEE doubles is outside that part of
  the model. Where a JavaScript expression leaves the finite numbers (a division by zero,
  which HOL would silently evaluate to 0), the model says so explicitly: a function whose
  result would be NaN or infinite returns \<open>None\<close>. The IRR solver, whose contract mentions
  non-finite values and whose tests compare products of computed values with 0, is
  modelled on IEEE doubles, with the type \<open>jsnum\<close> below and the rounding defined with it.

  The generator \<open>rng\<close> of the source is a closure over a 32-bit state (mulberry32, file
  engine/rng.js); what the simulation sees of it is the stream of its outputs. A call
  \<open>rng()\<close> takes the head of the stream and leaves the tail.
\<close>

type_synonym rng = "real stream"

definition draw :: "rng \<Rightarrow> real \<times> rng" where
  "draw g = (shd g, stl g)"

datatype jsnum = Num real | PosInf | NegInf | NaN

definition isFinite :: "jsnum \<Rightarrow> bool" where
  "isFinite x = (case x of Num _ \<Rightarrow> True | _ \<Rightarrow> False)"

subsection \<open>engine/utils.js\<close>

definition clamp :: "real \<Rightarrow> real \<Rightarrow> real \<Rightarrow> real" where
  "clamp x lo hi = max lo (min hi x)"

section \<open>engine/property.js: financial primitives\<close>

definition computeEffectiveRentFactor :: "real \<Rightarrow> real" where
  "computeEffectiveRentFactor vac =
     (let concession = clamp ((vac - 0.05) * 0.5) 0 0.08 in 1 - concession)"

text \<open>
  \<open>computeNOI\<close> divides by \<open>1 - expenseRatio\<close>. With \<open>expenseRatio = 1\<close> the JavaScript
  quotient is infinite or NaN, the difference \<open>newEgi - opex\<close> is NaN and so is
  \<open>Math.max(0, NaN)\<close>: the function returns \<open>None\<close> there.
\<close>

definition computeNOI :: "real \<Rightarrow> real \<Rightarrow> real \<Rightarrow> real \<Rightarrow> real option" where
  "computeNOI baseNOI' rentIndex' vacancy' expenseRatio =
     (let eff = computeEffectiveRentFactor vacancy';
          revenueFactor = rentIndex' * (1 - vacancy') * eff
      in if 1 - expenseRatio = 0 then None
         else
           let egi = baseNOI' / (1 - expenseRatio);
               newEgi = egi * revenueFactor;
               opex = newEgi * expenseRatio
           in Some (max 0 (newEgi - opex)))"

definition valueFromNOI :: "real \<Rightarrow> real \<Rightarrow> real" where
  "valueFromNOI noi capRate' = (if capRate' > 0 then noi / capRate' else 0)"

record DebtService =
  payment :: real
  interest :: real
  principal :: real

text \<open>
  \<open>Math.pow(1 + i, -n)\<close> with the whole number \<open>n = Math.max(1, amortYears)\<close> is
  \<open>1 / (1 + i)^n\<close>, and \<open>Infinity\<close> when \<open>1 + i = 0\<close>; the payment is then
  \<open>balance * i / -Infinity = 0\<close>. When the denominator \<open>1 - (1 + i)^-n\<close> is zero (a zero
  rate) the payment is NaN or infinite: \<open>None\<close>.
\<close>

definition annualDebtService :: "real \<Rightarrow> real \<Rightarrow> int \<Rightarrow> bool \<Rightarrow> DebtService option" where
  "annualDebtService balance rate amortYears' interestOnly' =
     (if balance \<le> 0 then Some \<lparr>payment = 0, interest = 0, principal = 0\<rparr>
      else
        let i = rate;
            n = nat (max 1 amortYears')
        in if interestOnly' then
             (let interest' = balance * i
              in Some \<lparr>payment = interest', interest = interest', principal = 0\<rparr>)
           else if 1 + i = 0 then
             (let pmt = 0;
                  interest' = balance * i;
                  principal' = max 0 (pmt - interest')
              in Some \<lparr>payment = pmt, interest = interest', principal = principal'\<rparr>)
           else if 1 - 1 / (1 + i) ^ n = 0 then None
           else
             (let pmt = (balance * i) / (1 - 1 / (1 + i) ^ n);
                  interest' = balance * i;
                  principal' = max 0 (pmt - interest')
              in Some \<lparr>payment = pmt, interest = interest', principal = principal'\<rparr>))"

definition dscr :: "real \<Rightarrow> real \<Rightarrow> jsnum" where
  "dscr noi debtService = (if debtService \<le> 0 then PosInf else Num (noi / debtService))"

text \<open>
  The repayment schedule of the amortization test: the payment is fixed, the interest
  is computed on the declining balance, \<open>balance' = balance * (1 + rate) - payment\<close>.
  This definition follows the words of the specification; the source has no such loop.
\<close>

fun spec_repay :: "real \<Rightarrow> real \<Rightarrow> real \<Rightarrow> nat \<Rightarrow> real" where
  "spec_repay balance rate pmt 0 = balance"
| "spec_repay balance rate pmt (Suc k) = spec_repay (balance * (1 + rate) - pmt) rate pmt k"

section \<open>engine/market.js: market and neighbourhood evolution\<close>

record Market =
  baseRate :: real
  spread :: real
  liquidity :: real

record Neighborhood =
  n_id :: string
  n_name :: string
  zoning :: "string list"
  baseDemand :: real
  demand :: real
  rentIndex :: real
  vacancy :: real
  capRate :: real
  scarcity :: real

text \<open>
  An event's \<open>effects\<close> object: a delta is applied when \<open>typeof delta === "number"\<close>,
  so each one is optional. The property record below has fields \<open>vacancyDelta\<close> and
  \<open>capRateDelta\<close> of its own; the event's are prefixed.
\<close>

record Effects =
  baseRateDelta :: "real option"
  spreadDelta :: "real option"
  liquidityDelta :: "real option"
  demandDelta :: "real option"
  rentIndexDelta :: "real option"
  e_vacancyDelta :: "real option"
  e_capRateDelta :: "real option"

record Event =
  e_name :: string
  scope :: string
  targetNeighborhood :: string
  effects :: "Effects option"

definition no_effects :: Effects where
  "no_effects = \<lparr>baseRateDelta = None, spreadDelta = None, liquidityDelta = None,
     demandDelta = None, rentIndexDelta = None, e_vacancyDelta = None, e_capRateDelta = None\<rparr>"

definition effects_of :: "Event \<Rightarrow> Effects" where
  "effects_of event = (case effects event of None \<Rightarrow> no_effects | Some e \<Rightarrow> e)"

definition applyEventToMarket :: "Market \<Rightarrow> Event \<Rightarrow> Market" where
  "applyEventToMarket market event =
     (let e = effects_of event;
          m1 = (case baseRateDelta e of
                  Some d \<Rightarrow> market\<lparr>baseRate := baseRate market + d\<rparr> | None \<Rightarrow> market);
          m2 = (case spreadDelta e of
                  Some d \<Rightarrow> m1\<lparr>spread := spread m1 + d\<rparr> | None \<Rightarrow> m1);
          m3 = (case liquidityDelta e of
                  Some d \<Rightarrow> m2\<lparr>liquidity := liquidity m2 + d\<rparr> | None \<Rightarrow> m2);
          m4 = m3\<lparr>baseRate := clamp (baseRate m3) 0.0 0.12\<rparr>;
          m5 = m4\<lparr>spread := clamp (spread m4) 0.0 0.08\<rparr>
      in m5\<lparr>liquidity := clamp (liquidity m5) 0.2 1.0\<rparr>)"

definition applyEventToNeighborhood :: "Neighborhood \<Rightarrow> Event \<Rightarrow> Neighborhood" where
  "applyEventToNeighborhood n event =
     (let e = effects_of event;
          n1 = (case demandDelta e of
                  Some d \<Rightarrow> n\<lparr>demand := clamp (demand n + d) 0.2 1.2\<rparr> | None \<Rightarrow> n);
          n2 = (case rentIndexDelta e of
                  Some d \<Rightarrow> n1\<lparr>rentIndex := clamp (rentIndex n1 + d) 0.6 1.8\<rparr> | None \<Rightarrow> n1);
          n3 = (case e_vacancyDelta e of
                  Some d \<Rightarrow> n2\<lparr>vacancy := clamp (vacancy n2 + d) 0.01 0.35\<rparr> | None \<Rightarrow> n2)
      in (case e_capRateDelta e of
            Some d \<Rightarrow> n3\<lparr>capRate := clamp (capRate n3 + d) 0.03 0.12\<rparr> | None \<Rightarrow> n3))"

text \<open>
  \<open>updateNeighborhoodYear\<close> mutates \<open>n\<close> field by field and each later line reads the
  fields already updated; \<open>n1 .. n4\<close> are the successive contents of \<open>n\<close>. The result is
  the updated neighbourhood, the returned \<open>rentGrowth\<close> and the generator after four draws.
\<close>

definition updateNeighborhoodYear :: "Neighborhood \<Rightarrow> Market \<Rightarrow> rng \<Rightarrow> Neighborhood \<times> real \<times> rng" where
  "updateNeighborhoodYear n market g0 =
     (let (r1, g1) = draw g0;
          noise = (r1 - 0.5) * 0.04;
          mean = baseDemand n;
          n1 = n\<lparr>demand := clamp (demand n + (mean - demand n) * 0.25 + noise) 0.2 1.2\<rparr>;
          (r2, g2) = draw g1;
          vacShock = (r2 - 0.5) * 0.02;
          targetVac = clamp (0.14 - (demand n1 - 0.6) * 0.12) 0.03 0.28;
          n2 = n1\<lparr>vacancy := clamp (vacancy n1 + (targetVac - vacancy n1) * 0.35 + vacShock) 0.01 0.35\<rparr>;
          rgBase = 0.02;
          rgTightBonus = clamp ((0.10 - vacancy n2) * 0.25) (- 0.03) 0.04;
          (r3, g3) = draw g2;
          rgNoise = (r3 - 0.5) * 0.02;
          rentGrowth = clamp (rgBase + rgTightBonus + rgNoise) (- 0.06) 0.10;
          n3 = n2\<lparr>rentIndex := clamp (rentIndex n2 * (1 + rentGrowth)) 0.6 1.8\<rparr>;
          rateComponent = baseRate market * 0.55 + spread market * 0.65;
          liqComponent = (liquidity market - 0.6) * 0.02;
          targetCap = clamp (capRate n3 * 0.5 + (0.045 + rateComponent - liqComponent) * 0.5) 0.03 0.12;
          (r4, g4) = draw g3;
          capNoise = (r4 - 0.5) * 0.004;
          n4 = n3\<lparr>capRate := clamp (capRate n3 + (targetCap - capRate n3) * 0.35 + capNoise) 0.03 0.12\<rparr>
      in (n4, rentGrowth, g4))"

definition updateMarketYear :: "Market \<Rightarrow> rng \<Rightarrow> Market \<times> rng" where
  "updateMarketYear market g0 =
     (let drift = 0.001;
          (r1, g1) = draw g0;
          shock = (r1 - 0.5) * 0.01;
          m1 = market\<lparr>baseRate := clamp (baseRate market + drift + shock) 0.0 0.12\<rparr>;
          (r2, g2) = draw g1;
          spreadShock = (r2 - 0.5) * 0.004;
          m2 = m1\<lparr>spread := clamp (spread m1 + spreadShock - (liquidity m1 - 0.6) * 0.003) 0.0 0.08\<rparr>;
          (r3, g3) = draw g2;
          liqShock = (r3 - 0.5) * 0.08;
          m3 = m2\<lparr>liquidity := clamp (liquidity m2 + (0.7 - liquidity m2) * 0.2 + liqShock) 0.2 1.0\<rparr>
      in (m3, g3))"

text \<open>The declared domains of the bounded fields (specification, data model).\<close>

definition market_ok :: "Market \<Rightarrow> bool" where
  "market_ok m \<longleftrightarrow>
     0 \<le> baseRate m \<and> baseRate m \<le> 0.12 \<and>
     0 \<le> spread m \<and> spread m \<le> 0.08 \<and>
     0.2 \<le> liquidity m \<and> liquidity m \<le> 1.0"

definition nbhd_ok :: "Neighborhood \<Rightarrow> bool" where
  "nbhd_ok n \<longleftrightarrow>
     0.2 \<le> demand n \<and> demand n \<le> 1.2 \<and>
     0.6 \<le> rentIndex n \<and> rentIndex n \<le> 1.8 \<and>
     0.01 \<le> vacancy n \<and> vacancy n \<le> 0.35 \<and>
     0.03 \<le> capRate n \<and> capRate n \<le> 0.12"

section \<open>The deal underwriter: the IRR solver\<close>

text \<open>
  A finite double is a real number of the form \<open>n * 2^q\<close> with \<open>|n| < 2^53\<close> and
  \<open>- 1074 <= q <= 971\<close>. \<open>rd x\<close> rounds a real number to the nearest such number, ties
  to the even \<open>n\<close>: \<open>expo x\<close> is the binary exponent of \<open>x\<close> kept within \<open>- 1022 .. 1023\<close>
  (found by eleven halvings of that range), so that \<open>expo x - 52\<close> is the exponent of the
  last place, also for subnormal numbers. \<open>fl\<close> is the result of an arithmetic operation
  whose exact result is \<open>x\<close>: the rounded number, or an infinity when that has left the
  range of the doubles. The sign of a zero is not recorded.
\<close>

definition pow2 :: "int \<Rightarrow> real" where
  "pow2 e = (if 0 \<le> e then 2 ^ nat e else 1 / 2 ^ nat (- e))"

definition rne :: "real \<Rightarrow> int" where
  "rne x = (let f = \<lfloor>x\<rfloor>; d = x - of_int f
            in if d < 1 / 2 then f else if 1 / 2 < d then f + 1 else if even f then f else f + 1)"

definition expo_step :: "real \<Rightarrow> int \<times> int \<Rightarrow> int \<times> int" where
  "expo_step x b =
     (let mid = (fst b + snd b + 1) div 2
      in if snd b \<le> fst b then b
         else if pow2 mid \<le> x then (mid, snd b) else (fst b, mid - 1))"

definition expo :: "real \<Rightarrow> int" where
  "expo x =
     (let s = expo_step \<bar>x\<bar>
      in fst (s (s (s (s (s (s (s (s (s (s (s (- 1022, 1023)))))))))))))"

definition rd :: "real \<Rightarrow> real" where
  "rd x = (let q = expo x - 52 in of_int (rne (x / pow2 q)) * pow2 q)"

definition fl :: "real \<Rightarrow> jsnum" where
  "fl x = (let y = rd x
           in if 2 ^ 1024 \<le> y then PosInf else if y \<le> - (2 ^ 1024) then NegInf else Num y)"



text \<open>
  Arithmetic on \<open>jsnum\<close> as far as the solver needs it. A zero divisor is taken as the
  positive zero: the only divisor in the solver is \<open>Math.pow(1 + r, i)\<close> with a positive
  base. ECMAScript leaves the precision of \<open>Math.pow\<close> to the implementation, except that
  the exponent 0 gives 1; the model takes the correctly rounded power. Comparisons with NaN
  are false.
\<close>

fun jadd :: "jsnum \<Rightarrow> jsnum \<Rightarrow> jsnum" where
  "jadd (Num a) (Num b) = fl (a + b)"
| "jadd NaN _ = NaN"
| "jadd _ NaN = NaN"
| "jadd PosInf NegInf = NaN"
| "jadd NegInf PosInf = NaN"
| "jadd PosInf _ = PosInf"
| "jadd _ PosInf = PosInf"
| "jadd NegInf _ = NegInf"
| "jadd _ NegInf = NegInf"

fun jdiv :: "jsnum \<Rightarrow> jsnum \<Rightarrow> jsnum" where
  "jdiv (Num a) (Num b) =
     (if b \<noteq> 0 then fl (a / b) else if a > 0 then PosInf else if a < 0 then NegInf else NaN)"
| "jdiv NaN _ = NaN"
| "jdiv _ NaN = NaN"
| "jdiv (Num a) PosInf = Num 0"
| "jdiv (Num a) NegInf = Num 0"
| "jdiv PosInf (Num b) = (if b < 0 then NegInf else PosInf)"
| "jdiv NegInf (Num b) = (if b < 0 then PosInf else NegInf)"
| "jdiv PosInf PosInf = NaN"
| "jdiv PosInf NegInf = NaN"
| "jdiv NegInf PosInf = NaN"
| "jdiv NegInf NegInf = NaN"

fun jmul :: "jsnum \<Rightarrow> jsnum \<Rightarrow> jsnum" where
  "jmul (Num a) (Num b) = fl (a * b)"
| "jmul NaN _ = NaN"
| "jmul _ NaN = NaN"
| "jmul (Num a) PosInf = (if a > 0 then PosInf else if a < 0 then NegInf else NaN)"
| "jmul (Num a) NegInf = (if a > 0 then NegInf else if a < 0 then PosInf else NaN)"
| "jmul PosInf (Num b) = (if b > 0 then PosInf else if b < 0 then NegInf else NaN)"
| "jmul NegInf (Num b) = (if b > 0 then NegInf else if b < 0 then PosInf else NaN)"
| "jmul PosInf PosInf = PosInf"
| "jmul PosInf NegInf = NegInf"
| "jmul NegInf PosInf = NegInf"
| "jmul NegInf NegInf = PosInf"

definition jpow :: "jsnum \<Rightarrow> nat \<Rightarrow> jsnum" where
  "jpow x i =
     (if i = 0 then Num 1
      else case x of
             Num a \<Rightarrow> fl (a ^ i)
           | PosInf \<Rightarrow> PosInf
           | NegInf \<Rightarrow> (if even i then PosInf else NegInf)
           | NaN \<Rightarrow> NaN)"

fun jabs :: "jsnum \<Rightarrow> jsnum" where
  "jabs (Num a) = Num \<bar>a\<bar>"
| "jabs PosInf = PosInf"
| "jabs NegInf = PosInf"
| "jabs NaN = NaN"

fun jlt :: "jsnum \<Rightarrow> real \<Rightarrow> bool" where
  "jlt (Num a) b = (a < b)"
| "jlt NegInf b = True"
| "jlt _ b = False"

fun jle :: "jsnum \<Rightarrow> real \<Rightarrow> bool" where
  "jle (Num a) b = (a \<le> b)"
| "jle NegInf b = True"
| "jle _ b = False"

fun jgt :: "jsnum \<Rightarrow> real \<Rightarrow> bool" where
  "jgt (Num a) b = (a > b)"
| "jgt PosInf b = True"
| "jgt _ b = False"

text \<open>
  \<open>npv r = cfs.reduce((s, cf, i) => s + cf / Math.pow(1 + r, i), 0)\<close>: \<open>npv_from\<close>
  carries the index \<open>i\<close> and the accumulator \<open>s\<close>.
\<close>

fun npv_from :: "real \<Rightarrow> nat \<Rightarrow> jsnum \<Rightarrow> jsnum list \<Rightarrow> jsnum" where
  "npv_from r i s [] = s"
| "npv_from r i s (cf # cfs) =
     npv_from r (Suc i) (jadd s (jdiv cf (jpow (jadd (Num 1) (Num r)) i))) cfs"

definition npv :: "jsnum list \<Rightarrow> real \<Rightarrow> jsnum" where
  "npv cfs r = npv_from r 0 (Num 0) cfs"

text \<open>
  \<open>(lo + hi) / 2\<close> on doubles between the bounds of the solver, where no operation
  overflows. The loop \<open>for (k = 0; k < 80; k++)\<close> of \<open>solveIRR\<close> has the number of
  iterations still to run as its first argument; \<open>fLo\<close> is the value computed before the
  loop, which the source never updates. The literals \<open>-0.9\<close>, \<open>1.5\<close> and \<open>1e-6\<close> are the
  doubles nearest to them.
\<close>

definition midpoint :: "real \<Rightarrow> real \<Rightarrow> real" where
  "midpoint lo hi = rd (rd (lo + hi) / 2)"

fun bisect :: "nat \<Rightarrow> jsnum list \<Rightarrow> jsnum \<Rightarrow> real \<Rightarrow> real \<Rightarrow> jsnum" where
  "bisect 0 cfs fLo lo hi = Num (midpoint lo hi)"
| "bisect (Suc k) cfs fLo lo hi =
     (let mid = midpoint lo hi;
          f = npv cfs mid
      in if jlt (jabs f) (rd 0.000001) then Num mid
         else if jle (jmul fLo f) 0 then bisect k cfs fLo lo mid
         else bisect k cfs fLo mid hi)"

definition solveIRR :: "jsnum list \<Rightarrow> jsnum" where
  "solveIRR cfs =
     (let lo = rd (- 0.9); hi = rd 1.5;
          fLo = npv cfs lo; fHi = npv cfs hi
      in if \<not> isFinite fLo \<or> \<not> isFinite fHi then NaN
         else if jgt (jmul fLo fHi) 0 then NaN
         else bisect 80 cfs fLo lo hi)"

text \<open>
  A cash-flow stream of the claim: not empty, and every entry a positive (negative) finite
  number.
\<close>

definition all_positive :: "jsnum list \<Rightarrow> bool" where
  "all_positive cfs \<longleftrightarrow> cfs \<noteq> [] \<and> list_all (\<lambda>cf. case cf of Num c \<Rightarrow> c > 0 | _ \<Rightarrow> False) cfs"

definition all_negative :: "jsnum list \<Rightarrow> bool" where
  "all_negative cfs \<longleftrightarrow> cfs \<noteq> [] \<and> list_all (\<lambda>cf. case cf of Num c \<Rightarrow> c < 0 | _ \<Rightarrow> False) cfs"

section \<open>The simulation script: the run state\<close>

text \<open>
  The module keeps the run in the globals \<open>state\<close>, \<open>rng\<close> and \<open>DATA\<close>. In the model every
  operation takes the state and the generator it reads and returns the ones it leaves.
  An operation returns \<open>None\<close> when the source throws a \<open>TypeError\<close> (a property of
  \<open>undefined\<close> is read: a neighbourhood or a product type that is not found) and when a
  number that is NaN or infinite would enter its result or the state; the model stops there.
  The log written with \<open>addLog\<close> and the rendering belong to the page and are not part of
  the run state; what a player's command reports is returned as an outcome value.

  Field names are those of the source; where two kinds of object share a field name
  (\<open>id\<close>, \<open>name\<close>, \<open>yearsRemaining\<close>, ...) the fields carry a prefix. A field that the
  source tests for presence (\<open>p.lease\<close>, \<open>p.build\<close>, \<open>p.ltv\<close>, \<open>p.renoLevel\<close>,
  \<open>p.maturityYear\<close>, \<open>lease.leaseRentIndex\<close>) is optional.
\<close>

record Lease =
  yearsRemaining :: int
  rollPct :: real
  leaseRentIndex :: "real option"

record Build =
  phase :: string
  b_yearsRemaining :: int
  stabilizeYearsRemaining :: int
  leaseUpVacancy :: real

record Property =
  p_id :: string
  p_name :: string
  neighborhood :: string
  productType :: string
  baseNOI :: real
  rentIndexMult :: real
  vacancyDelta :: real
  capRateDelta :: real
  renoLevel :: "int option"
  ltv :: "real option"
  loanBalance :: real
  loanRate :: real
  amortYears :: int
  interestOnly :: bool
  maturityYear :: "int option"
  build :: "Build option"
  lease :: "Lease option"

record BuildParams =
  yearsToBuild :: int
  yearsToStabilize :: int
  pb_leaseUpVacancy :: real

record ProductType =
  pt_id :: string
  pt_name :: string
  baseExpenseRatio :: real
  pt_build :: BuildParams

record LoanTerms =
  lt_ltv :: real
  lt_rate :: real
  lt_amortYears :: int
  lt_interestOnly :: bool

record Listing =
  l_id :: string
  l_name :: string
  l_neighborhood :: string
  l_productType :: string
  price :: real
  l_baseNOI :: real
  loanTerms :: LoanTerms

datatype JournalEntry =
    BUY int string real
  | BUILD int string real
  | SELL int string real real
  | RENO int string real int

record State =
  year :: int
  cash :: real
  market :: Market
  neighborhoods :: "Neighborhood list"
  properties :: "Property list"
  listings :: "Listing list"
  activeEvents :: "Event list"
  journal :: "JournalEntry list"

text \<open>\<open>DATA\<close>: the static reference data, loaded once.\<close>

record Data =
  d_neighborhoods :: "Neighborhood list"
  productTypes :: "ProductType list"
  events :: "Event list"

definition RUN_DEFAULTS :: State where
  "RUN_DEFAULTS = \<lparr>year = 1, cash = 3000000,
     market = \<lparr>baseRate = 0.045, spread = 0.020, liquidity = 0.70\<rparr>,
     neighborhoods = [], properties = [], listings = [], activeEvents = [], journal = []\<rparr>"

record LeaseRule =
  termMin :: int
  termMax :: int
  r_rollPct :: real

definition LEASE_RULES :: "string \<Rightarrow> LeaseRule option" where
  "LEASE_RULES pt =
     (if pt = ''multifamily'' then Some \<lparr>termMin = 1, termMax = 2, r_rollPct = 0.55\<rparr>
      else if pt = ''hotel'' then Some \<lparr>termMin = 1, termMax = 1, r_rollPct = 1.00\<rparr>
      else if pt = ''industrial'' then Some \<lparr>termMin = 3, termMax = 7, r_rollPct = 0.18\<rparr>
      else if pt = ''retail'' then Some \<lparr>termMin = 5, termMax = 10, r_rollPct = 0.12\<rparr>
      else if pt = ''office'' then Some \<lparr>termMin = 5, termMax = 12, r_rollPct = 0.08\<rparr>
      else if pt = ''mixeduse'' then Some \<lparr>termMin = 2, termMax = 5, r_rollPct = 0.22\<rparr>
      else None)"

text \<open>\<open>LEASE_RULES[p.productType] || { termMin: 3, termMax: 7, rollPct: 0.15 }\<close>\<close>

definition rulesFor :: "string \<Rightarrow> LeaseRule" where
  "rulesFor pt = (case LEASE_RULES pt of Some r \<Rightarrow> r
                  | None \<Rightarrow> \<lparr>termMin = 3, termMax = 7, r_rollPct = 0.15\<rparr>)"

definition randInt :: "int \<Rightarrow> int \<Rightarrow> rng \<Rightarrow> int \<times> rng" where
  "randInt mn mx g = (let (r, g') = draw g in (\<lfloor>of_int mn + r * of_int (mx - mn + 1)\<rfloor>, g'))"

definition getNeighborhood :: "State \<Rightarrow> string \<Rightarrow> Neighborhood option" where
  "getNeighborhood state i = find (\<lambda>x. n_id x = i) (neighborhoods state)"

definition makeMaturityYears :: "rng \<Rightarrow> int \<times> rng" where
  "makeMaturityYears g =
     (let (r, g') = draw g
      in (if r < 0.45 then 5 else if r < 0.75 then 7 else 10, g'))"

definition initLeaseForProperty :: "State \<Rightarrow> Property \<Rightarrow> rng \<Rightarrow> (Property \<times> rng) option" where
  "initLeaseForProperty state p g =
     (case getNeighborhood state (neighborhood p) of
        None \<Rightarrow> None
      | Some n \<Rightarrow>
          let rules = rulesFor (productType p);
              marketRentIndex = rentIndex n * rentIndexMult p;
              (yrs, g') = randInt (termMin rules) (termMax rules) g
          in Some (p\<lparr>lease := Some \<lparr>yearsRemaining = yrs, rollPct = r_rollPct rules,
                                     leaseRentIndex = Some marketRentIndex\<rparr>\<rparr>, g'))"

text \<open>
  The in-place rent index of a property: \<open>Some\<close> when \<open>p.lease\<close> exists and its
  \<open>leaseRentIndex\<close> is a number.
\<close>

definition inPlaceRentIndex :: "Property \<Rightarrow> real option" where
  "inPlaceRentIndex p = (case lease p of None \<Rightarrow> None | Some l \<Rightarrow> leaseRentIndex l)"

text \<open>The body of the loop of \<open>updateLeasesOneYear\<close>, for one property.\<close>

definition updateLease :: "State \<Rightarrow> Property \<Rightarrow> rng \<Rightarrow> (Property \<times> rng) option" where
  "updateLease state p g =
     (case lease p of
        None \<Rightarrow> initLeaseForProperty state p g
      | Some l \<Rightarrow>
         (case leaseRentIndex l of
            None \<Rightarrow> initLeaseForProperty state p g
          | Some lri \<Rightarrow>
             (case getNeighborhood state (neighborhood p) of
                None \<Rightarrow> None
              | Some n \<Rightarrow>
                  let marketRentIndex = rentIndex n * rentIndexMult p;
                      roll = clamp (rollPct l) 0 1;
                      l1 = l\<lparr>leaseRentIndex := Some (lri * (1 - roll) + marketRentIndex * roll)\<rparr>;
                      l2 = l1\<lparr>yearsRemaining := yearsRemaining l1 - 1\<rparr>
                  in if yearsRemaining l2 \<le> 0 then
                       (let rules = rulesFor (productType p);
                            (yrs, g') = randInt (termMin rules) (termMax rules) g;
                            l3 = l2\<lparr>yearsRemaining := yrs\<rparr>;
                            l4 = l3\<lparr>leaseRentIndex := Some marketRentIndex\<rparr>
                        in Some (p\<lparr>lease := Some l4\<rparr>, g'))
                     else Some (p\<lparr>lease := Some l2\<rparr>, g))))"

fun updateLeases_loop :: "State \<Rightarrow> Property list \<Rightarrow> rng \<Rightarrow> (Property list \<times> rng) option" where
  "updateLeases_loop state [] g = Some ([], g)"
| "updateLeases_loop state (p # ps) g =
     (case updateLease state p g of
        None \<Rightarrow> None
      | Some (p', g') \<Rightarrow>
         (case updateLeases_loop state ps g' of
            None \<Rightarrow> None
          | Some (ps', g'') \<Rightarrow> Some (p' # ps', g'')))"

definition updateLeasesOneYear :: "State \<Rightarrow> rng \<Rightarrow> (State \<times> rng) option" where
  "updateLeasesOneYear state g =
     (case updateLeases_loop state (properties state) g of
        None \<Rightarrow> None
      | Some (ps, g') \<Rightarrow> Some (state\<lparr>properties := ps\<rparr>, g'))"

text \<open>
  \<open>Object.fromEntries(DATA.productTypes.map(p => [p.id, p]))\<close>: of two product types with
  the same id the later one is kept.
\<close>

definition productTypesById :: "Data \<Rightarrow> string \<Rightarrow> ProductType option" where
  "productTypesById d = map_of (rev (map (\<lambda>p. (pt_id p, p)) (productTypes d)))"

record Snapshot =
  sn_n :: Neighborhood
  sn_product :: ProductType
  sn_noi :: real
  sn_capRate :: real
  sn_value :: real
  sn_ds :: "DebtService option"

text \<open>
  The rent index that the three NOI computations pass to \<open>computeNOI\<close>:
  \<open>p.lease?.leaseRentIndex ?? (n.rentIndex * p.rentIndexMult)\<close>.
\<close>

definition rentIndexArg :: "Property \<Rightarrow> Neighborhood \<Rightarrow> real" where
  "rentIndexArg p n = (case inPlaceRentIndex p of Some x \<Rightarrow> x | None \<Rightarrow> rentIndex n * rentIndexMult p)"

definition computePropertySnapshot :: "State \<Rightarrow> Property \<Rightarrow> (string \<Rightarrow> ProductType option) \<Rightarrow> Snapshot option" where
  "computePropertySnapshot state p byId =
     (case getNeighborhood state (neighborhood p) of
        None \<Rightarrow> None
      | Some n \<Rightarrow>
         (case byId (productType p) of
            None \<Rightarrow> None
          | Some product \<Rightarrow>
             (case computeNOI (baseNOI p) (rentIndexArg p n)
                     (clamp (vacancy n + vacancyDelta p) 0.01 0.40) (baseExpenseRatio product) of
                None \<Rightarrow> None
              | Some noi \<Rightarrow>
                  let capRate' = clamp (capRate n + capRateDelta p) 0.03 0.14;
                      value = valueFromNOI noi capRate';
                      ds = annualDebtService (loanBalance p) (loanRate p) (amortYears p) (interestOnly p)
                  in Some \<lparr>sn_n = n, sn_product = product, sn_noi = noi, sn_capRate = capRate',
                            sn_value = value, sn_ds = ds\<rparr>)))"

record Portfolio =
  totalValue :: real
  totalDebt :: real
  totalNOI :: real
  totalCF :: real
  equity :: real
  portfolioDSCR :: jsnum

record Totals =
  t_value :: real
  t_debt :: real
  t_noi :: real
  t_cf :: real
  t_ds :: real

fun computePortfolio_loop :: "State \<Rightarrow> (string \<Rightarrow> ProductType option) \<Rightarrow> Property list \<Rightarrow> Totals \<Rightarrow> Totals option" where
  "computePortfolio_loop state byId [] t = Some t"
| "computePortfolio_loop state byId (p # ps) t =
     (case find (\<lambda>x. n_id x = neighborhood p) (neighborhoods state) of
        None \<Rightarrow> None
      | Some n \<Rightarrow>
         (case byId (productType p) of
            None \<Rightarrow> None
          | Some product \<Rightarrow>
             (case computeNOI (baseNOI p) (rentIndexArg p n)
                     (clamp (vacancy n + vacancyDelta p) 0.01 0.40) (baseExpenseRatio product) of
                None \<Rightarrow> None
              | Some noi \<Rightarrow>
                  let capRate' = clamp (capRate n + capRateDelta p) 0.03 0.14;
                      value = valueFromNOI noi capRate'
                  in (case annualDebtService (loanBalance p) (loanRate p) (amortYears p) (interestOnly p) of
                        None \<Rightarrow> None
                      | Some ds \<Rightarrow>
                          computePortfolio_loop state byId ps
                            \<lparr>t_value = t_value t + value, t_debt = t_debt t + loanBalance p,
                             t_noi = t_noi t + noi, t_cf = t_cf t + (noi - payment ds),
                             t_ds = t_ds t + payment ds\<rparr>))))"

definition computePortfolio :: "State \<Rightarrow> (string \<Rightarrow> ProductType option) \<Rightarrow> Portfolio option" where
  "computePortfolio state byId =
     (case computePortfolio_loop state byId (properties state)
             \<lparr>t_value = 0, t_debt = 0, t_noi = 0, t_cf = 0, t_ds = 0\<rparr> of
        None \<Rightarrow> None
      | Some t \<Rightarrow>
          let equity' = t_value t - t_debt t + cash state;
              portfolioDSCR' = dscr (t_noi t) (t_ds t)
          in Some \<lparr>totalValue = t_value t, totalDebt = t_debt t, totalNOI = t_noi t,
                    totalCF = t_cf t, equity = equity', portfolioDSCR = portfolioDSCR'\<rparr>)"

text \<open>
  The loop of \<open>applyOperatingCashFlow\<close>: the properties with their amortized balances
  and the running \<open>totalCF\<close>.
\<close>

fun applyOperatingCashFlow_loop :: "State \<Rightarrow> (string \<Rightarrow> ProductType option) \<Rightarrow> Property list \<Rightarrow> real \<Rightarrow> (Property list \<times> real) option" where
  "applyOperatingCashFlow_loop state byId [] tot = Some ([], tot)"
| "applyOperatingCashFlow_loop state byId (p # ps) tot =
     (case find (\<lambda>x. n_id x = neighborhood p) (neighborhoods state) of
        None \<Rightarrow> None
      | Some n \<Rightarrow>
         (case byId (productType p) of
            None \<Rightarrow> None
          | Some product \<Rightarrow>
             (case computeNOI (baseNOI p) (rentIndexArg p n)
                     (clamp (vacancy n + vacancyDelta p) 0.01 0.40) (baseExpenseRatio product) of
                None \<Rightarrow> None
              | Some noi \<Rightarrow>
                 (case annualDebtService (loanBalance p) (loanRate p) (amortYears p) (interestOnly p) of
                    None \<Rightarrow> None
                  | Some ds \<Rightarrow>
                      let p' = p\<lparr>loanBalance := max 0 (loanBalance p - principal ds)\<rparr>;
                          cf = noi - payment ds
                      in (case applyOperatingCashFlow_loop state byId ps (tot + cf) of
                            None \<Rightarrow> None
                          | Some (ps', tot') \<Rightarrow> Some (p' # ps', tot'))))))"

definition applyOperatingCashFlow :: "State \<Rightarrow> (string \<Rightarrow> ProductType option) \<Rightarrow> State option" where
  "applyOperatingCashFlow state byId =
     (case applyOperatingCashFlow_loop state byId (properties state) 0 of
        None \<Rightarrow> None
      | Some (ps, tot) \<Rightarrow> Some (state\<lparr>properties := ps, cash := cash state + tot\<rparr>))"

section \<open>The simulation script: the player's commands and the yearly advance\<close>

text \<open>
  Template literals print whole numbers in decimal. The separator of the display names
  is an em dash between two spaces, written here as its UTF-8 bytes.
\<close>

definition digit :: "nat \<Rightarrow> char" where
  "digit n = ''0123456789'' ! n"

fun show_nat :: "nat \<Rightarrow> string" where
  "show_nat n = (if n < 10 then [digit n] else show_nat (n div 10) @ [digit (n mod 10)])"

declare show_nat.simps [simp del]

definition show_int :: "int \<Rightarrow> string" where
  "show_int i = (if i < 0 then ''-'' @ show_nat (nat (- i)) else show_nat (nat i))"

definition emdash :: string where
  "emdash = [CHR 0x20, CHR 0xE2, CHR 0x80, CHR 0x94, CHR 0x20]"

text \<open>\<open>xs.findIndex(P)\<close>, with \<open>None\<close> for \<open>-1\<close>; \<open>xs[i]\<close>, with \<open>None\<close> for \<open>undefined\<close>.\<close>

fun findIndex :: "('a \<Rightarrow> bool) \<Rightarrow> 'a list \<Rightarrow> nat option" where
  "findIndex P [] = None"
| "findIndex P (x # xs) = (if P x then Some 0 else map_option Suc (findIndex P xs))"

definition nth_opt :: "'a list \<Rightarrow> int \<Rightarrow> 'a option" where
  "nth_opt xs i = (if 0 \<le> i \<and> i < int (length xs) then Some (xs ! nat i) else None)"

definition pickEvent :: "Event list \<Rightarrow> rng \<Rightarrow> Event option \<times> rng" where
  "pickEvent evs g =
     (let (roll, g1) = draw g
      in if roll < 0.35 then (None, g1)
         else let (r, g2) = draw g1
              in (nth_opt evs \<lfloor>r * of_nat (length evs)\<rfloor>, g2))"

text \<open>
  \<open>generateListings\<close>: \<open>makeListing\<close> is the body of the loop \<open>for (i = 0; i < 3; i++)\<close>,
  which gives no listing when it takes the \<open>continue\<close>; the loop runs over the list of its
  indices. An index drawn outside the array gives \<open>undefined\<close>, and the next read of a
  property of it throws.
\<close>

definition makeListing :: "Data \<Rightarrow> State \<Rightarrow> nat \<Rightarrow> rng \<Rightarrow> (Listing option \<times> rng) option" where
  "makeListing d state i g =
     (let productIds = map pt_id (productTypes d);
          (r1, g1) = draw g
      in case nth_opt (neighborhoods state) \<lfloor>r1 * of_nat (length (neighborhoods state))\<rfloor> of
           None \<Rightarrow> None
         | Some n \<Rightarrow>
            (let allowed = filter (\<lambda>pid. pid \<in> set (zoning n)) productIds
             in if allowed = [] then Some (None, g1)
                else
                  (let (r2, g2) = draw g1
                   in case nth_opt allowed \<lfloor>r2 * of_nat (length allowed)\<rfloor> of
                        None \<Rightarrow> None
                      | Some productType' \<Rightarrow>
                         (case find (\<lambda>p. pt_id p = productType') (productTypes d) of
                            None \<Rightarrow> None
                          | Some product \<Rightarrow>
                             (let (r3, g3) = draw g2;
                                  baseNOI' = 350000 + r3 * 900000;
                                  impliedNOI = baseNOI' * rentIndex n * (1 - vacancy n);
                                  (r4, g4) = draw g3;
                                  cap = clamp (capRate n + (r4 - 0.5) * 0.01) 0.04 0.12;
                                  price' = impliedNOI / cap;
                                  (r5, g5) = draw g4;
                                  loanRate' = clamp (baseRate (market state) + spread (market state)
                                                + 0.012 + (r5 * 0.01)) 0.03 0.14;
                                  (r6, g6) = draw g5;
                                  l = \<lparr>l_id = ''L'' @ show_int (year state) @ ''-'' @ show_nat i @ ''-''
                                              @ show_int \<lfloor>r6 * 1000000\<rfloor>,
                                       l_name = n_name n @ emdash @ pt_name product,
                                       l_neighborhood = n_id n,
                                       l_productType = productType',
                                       price = of_int (round (price' / 1000)) * 1000,
                                       l_baseNOI = baseNOI',
                                       loanTerms = \<lparr>lt_ltv = 0.65, lt_rate = loanRate',
                                                    lt_amortYears = 30, lt_interestOnly = False\<rparr>\<rparr>
                              in Some (Some l, g6))))))"

fun generateListings_loop :: "Data \<Rightarrow> State \<Rightarrow> nat list \<Rightarrow> rng \<Rightarrow> (Listing list \<times> rng) option" where
  "generateListings_loop d state [] g = Some ([], g)"
| "generateListings_loop d state (i # is) g =
     (case makeListing d state i g of
        None \<Rightarrow> None
      | Some (l, g1) \<Rightarrow>
         (case generateListings_loop d state is g1 of
            None \<Rightarrow> None
          | Some (ls, g2) \<Rightarrow> Some ((case l of None \<Rightarrow> ls | Some x \<Rightarrow> x # ls), g2)))"

definition generateListings :: "Data \<Rightarrow> State \<Rightarrow> rng \<Rightarrow> (State \<times> rng) option" where
  "generateListings d state g =
     (case generateListings_loop d state [0, 1, 2] g of
        None \<Rightarrow> None
      | Some (ls, g') \<Rightarrow> Some (state\<lparr>listings := ls\<rparr>, g'))"

definition canBuy :: "State \<Rightarrow> Listing \<Rightarrow> bool" where
  "canBuy state listing =
     (let down = price listing * (1 - lt_ltv (loanTerms listing)) in cash state \<ge> down)"

definition buyListing :: "State \<Rightarrow> Listing \<Rightarrow> rng \<Rightarrow> (State \<times> rng) option" where
  "buyListing state listing g =
     (let down = price listing * (1 - lt_ltv (loanTerms listing));
          s1 = state\<lparr>cash := cash state - down\<rparr>;
          loanBalance' = price listing * lt_ltv (loanTerms listing);
          (maturityYears, g1) = makeMaturityYears g;
          p = \<lparr>p_id = ''P'' @ l_id listing,
               p_name = l_name listing,
               neighborhood = l_neighborhood listing,
               productType = l_productType listing,
               baseNOI = l_baseNOI listing,
               rentIndexMult = 1.0, vacancyDelta = 0.0, capRateDelta = 0.0,
               renoLevel = Some 0,
               ltv = Some (lt_ltv (loanTerms listing)),
               loanBalance = loanBalance',
               loanRate = lt_rate (loanTerms listing),
               amortYears = lt_amortYears (loanTerms listing),
               interestOnly = lt_interestOnly (loanTerms listing),
               maturityYear = Some (year s1 + maturityYears),
               build = None, lease = None\<rparr>
      in case initLeaseForProperty s1 p g1 of
           None \<Rightarrow> None
         | Some (p', g2) \<Rightarrow>
             Some (s1\<lparr>properties := properties s1 @ [p'],
                      journal := journal s1 @ [BUY (year s1) (l_id listing) (price listing)]\<rparr>, g2))"

datatype BuildOutcome = BuildBlocked | BuildNoCash real | BuildStarted real real

definition buildCost :: "Neighborhood \<Rightarrow> real \<Rightarrow> real" where
  "buildCost n r =
     (let scarcityPremium = 1 + scarcity n * 0.35
      in of_int (round ((9000000 + r * 9000000) * scarcityPremium * rentIndex n / 1000)) * 1000)"

definition startBuild :: "Data \<Rightarrow> State \<Rightarrow> string \<Rightarrow> string \<Rightarrow> rng \<Rightarrow> (BuildOutcome \<times> State \<times> rng) option" where
  "startBuild d state neighborhoodId productType' g =
     (case find (\<lambda>x. n_id x = neighborhoodId) (neighborhoods state) of
        None \<Rightarrow> None
      | Some n \<Rightarrow>
          if productType' \<notin> set (zoning n) then Some (BuildBlocked, state, g)
          else
            (let product = find (\<lambda>p. pt_id p = productType') (productTypes d);
                 (r1, g1) = draw g;
                 cost = buildCost n r1
             in if cash state < cost * 0.25 then Some (BuildNoCash cost, state, g1)
                else
                  (let equity' = cost * 0.25;
                       loanBalance' = cost * 0.75;
                       s1 = state\<lparr>cash := cash state - equity'\<rparr>;
                       (r2, g2) = draw g1
                   in case product of
                        None \<Rightarrow> None
                      | Some pr \<Rightarrow>
                         (let p = \<lparr>p_id = ''B'' @ show_int (year s1) @ ''-'' @ show_int \<lfloor>r2 * 1000000\<rfloor>,
                                   p_name = n_name n @ emdash @ ''New '' @ pt_name pr,
                                   neighborhood = neighborhoodId,
                                   productType = productType',
                                   baseNOI = 650000,
                                   rentIndexMult = 1.0, vacancyDelta = 0.0, capRateDelta = 0.0,
                                   renoLevel = Some 0,
                                   ltv = Some 0.65,
                                   loanBalance = loanBalance',
                                   loanRate = clamp (baseRate (market s1) + spread (market s1) + 0.02) 0.04 0.16,
                                   amortYears = 30,
                                   interestOnly = True,
                                   maturityYear = Some (year s1 + 3),
                                   build = Some \<lparr>phase = ''construction'',
                                                  b_yearsRemaining = yearsToBuild (pt_build pr),
                                                  stabilizeYearsRemaining = yearsToStabilize (pt_build pr),
                                                  leaseUpVacancy = pb_leaseUpVacancy (pt_build pr)\<rparr>,
                                   lease = None\<rparr>
                          in Some (BuildStarted cost equity',
                                   s1\<lparr>properties := properties s1 @ [p],
                                      journal := journal s1 @ [BUILD (year s1) neighborhoodId cost]\<rparr>,
                                   g2)))))"

text \<open>The body of the loop of \<open>processBuildPhases\<close>, for one property.\<close>

definition processBuild :: "State \<Rightarrow> Property \<Rightarrow> rng \<Rightarrow> (Property \<times> rng) option" where
  "processBuild state p g =
     (case build p of
        None \<Rightarrow> Some (p, g)
      | Some b \<Rightarrow>
          if phase b = ''construction'' then
            (let b1 = b\<lparr>b_yearsRemaining := b_yearsRemaining b - 1\<rparr>
             in if b_yearsRemaining b1 \<le> 0 then Some (p\<lparr>build := Some (b1\<lparr>phase := ''leaseup''\<rparr>)\<rparr>, g)
                else Some (p\<lparr>build := Some b1\<rparr>, g))
          else if phase b = ''leaseup'' then
            (let b1 = b\<lparr>stabilizeYearsRemaining := stabilizeYearsRemaining b - 1\<rparr>;
                 p1 = p\<lparr>build := Some b1, vacancyDelta := max (vacancyDelta p) (leaseUpVacancy b1)\<rparr>
             in if stabilizeYearsRemaining b1 \<le> 0 then
                  (let p2 = p1\<lparr>build := None, vacancyDelta := 0.0, interestOnly := False, amortYears := 30\<rparr>;
                       (r, g1) = draw g;
                       p3 = p2\<lparr>loanRate := clamp (baseRate (market state) + spread (market state)
                                                + 0.018 + (r * 0.01)) 0.04 0.16\<rparr>;
                       (maturityYears, g2) = makeMaturityYears g1;
                       p4 = p3\<lparr>maturityYear := Some (year state + maturityYears)\<rparr>
                   in initLeaseForProperty state p4 g2)
                else Some (p1, g))
          else Some (p, g))"

fun processBuildPhases_loop :: "State \<Rightarrow> Property list \<Rightarrow> rng \<Rightarrow> (Property list \<times> rng) option" where
  "processBuildPhases_loop state [] g = Some ([], g)"
| "processBuildPhases_loop state (p # ps) g =
     (case processBuild state p g of
        None \<Rightarrow> None
      | Some (p', g') \<Rightarrow>
         (case processBuildPhases_loop state ps g' of
            None \<Rightarrow> None
          | Some (ps', g'') \<Rightarrow> Some (p' # ps', g'')))"

definition processBuildPhases :: "State \<Rightarrow> rng \<Rightarrow> (State \<times> rng) option" where
  "processBuildPhases state g =
     (case processBuildPhases_loop state (properties state) g of
        None \<Rightarrow> None
      | Some (ps, g') \<Rightarrow> Some (state\<lparr>properties := ps\<rparr>, g'))"

definition sellProperty :: "Data \<Rightarrow> State \<Rightarrow> string \<Rightarrow> State option" where
  "sellProperty d state propertyId =
     (let byId = productTypesById d
      in case findIndex (\<lambda>x. p_id x = propertyId) (properties state) of
           None \<Rightarrow> Some state
         | Some idx \<Rightarrow>
            (let p = properties state ! idx
             in case computePropertySnapshot state p byId of
                  None \<Rightarrow> None
                | Some snap \<Rightarrow>
                   (let salePrice = sn_value snap;
                        sellingCosts = salePrice * 0.02;
                        netBeforeDebt = salePrice - sellingCosts;
                        net = netBeforeDebt - loanBalance p
                    in Some (state\<lparr>cash := cash state + net,
                                   properties := take idx (properties state) @ drop (Suc idx) (properties state),
                                   journal := journal state @ [SELL (year state) propertyId salePrice net]\<rparr>))))"

datatype RenoOutcome = RenoNotFound | RenoMaxed | RenoNoCash real | Renovated real int

definition renoCost :: "real \<Rightarrow> int \<Rightarrow> real" where
  "renoCost value nextLevel =
     (let baseCost = value * 0.03
      in clamp (baseCost * (1 + of_int (nextLevel - 1) * 0.35)) 200000 5000000)"

definition renovateProperty :: "Data \<Rightarrow> State \<Rightarrow> string \<Rightarrow> (RenoOutcome \<times> State) option" where
  "renovateProperty d state propertyId =
     (let byId = productTypesById d
      in case findIndex (\<lambda>x. p_id x = propertyId) (properties state) of
           None \<Rightarrow> Some (RenoNotFound, state)
         | Some idx \<Rightarrow>
            (let p = properties state ! idx;
                 maxLevel = 3;
                 level = (case renoLevel p of None \<Rightarrow> 0 | Some l \<Rightarrow> l)
             in if level \<ge> maxLevel then Some (RenoMaxed, state)
                else
                  (case computePropertySnapshot state p byId of
                     None \<Rightarrow> None
                   | Some snap \<Rightarrow>
                      (let nextLevel = level + 1;
                           cost = renoCost (sn_value snap) nextLevel
                       in if cash state < cost then Some (RenoNoCash cost, state)
                          else
                            (let p1 = p\<lparr>renoLevel := Some nextLevel\<rparr>;
                                 p2 = p1\<lparr>rentIndexMult := clamp (rentIndexMult p1 + 0.03) 0.8 1.35\<rparr>;
                                 p3 = p2\<lparr>vacancyDelta := clamp (vacancyDelta p2 - 0.005) (- 0.08) 0.20\<rparr>;
                                 p4 = (case lease p3 of
                                         None \<Rightarrow> p3
                                       | Some l \<Rightarrow>
                                          (case leaseRentIndex l of
                                             None \<Rightarrow> p3
                                           | Some x \<Rightarrow>
                                               p3\<lparr>lease := Some (l\<lparr>leaseRentIndex :=
                                                                    Some (clamp (x * 1.01) 0.6 2.0)\<rparr>)\<rparr>))
                             in Some (Renovated cost nextLevel,
                                      state\<lparr>cash := cash state - cost,
                                            properties := (properties state)[idx := p4],
                                            journal := journal state @
                                              [RENO (year state) propertyId cost nextLevel]\<rparr>))))))"

text \<open>
  \<open>attemptRefi\<close> mutates the property object \<open>p\<close> and \<open>state.cash\<close>. It returns the flag,
  the state with the cash it leaves, the property with the fields it leaves and the
  generator after its two draws; the caller puts the property back in its place in
  \<open>state.properties\<close>.
\<close>

definition newLoanFor :: "Snapshot \<Rightarrow> Property \<Rightarrow> real" where
  "newLoanFor snap p = max 0 (sn_value snap * (case ltv p of Some l \<Rightarrow> l | None \<Rightarrow> 0.65))"

definition attemptRefi :: "State \<Rightarrow> Property \<Rightarrow> (string \<Rightarrow> ProductType option) \<Rightarrow> rng \<Rightarrow> (bool \<times> State \<times> Property \<times> rng) option" where
  "attemptRefi state p byId g =
     (case computePropertySnapshot state p byId of
        None \<Rightarrow> None
      | Some snap \<Rightarrow>
         (let newLoan = newLoanFor snap p;
              payoff = loanBalance p;
              (r, g1) = draw g;
              newRate = clamp (baseRate (market state) + spread (market state) + 0.018 + (r * 0.01)) 0.03 0.18;
              (maturityYears, g2) = makeMaturityYears g1
          in if newLoan \<ge> payoff then
               (let cashOut = newLoan - payoff
                in Some (True, state\<lparr>cash := cash state + cashOut\<rparr>,
                         p\<lparr>loanBalance := newLoan, loanRate := newRate, amortYears := 30,
                           interestOnly := False, maturityYear := Some (year state + maturityYears)\<rparr>, g2))
             else
               (let gap = payoff - newLoan
                in if cash state \<ge> gap then
                     Some (True, state\<lparr>cash := cash state - gap\<rparr>,
                           p\<lparr>loanBalance := newLoan, loanRate := newRate, amortYears := 30,
                             interestOnly := False, maturityYear := Some (year state + maturityYears)\<rparr>, g2)
                   else Some (False, state, p, g2))))"

text \<open>\<open>p.maturityYear && p.maturityYear <= state.year\<close>: an absent maturity year and the
  number 0 are falsy.\<close>

definition matured :: "State \<Rightarrow> Property \<Rightarrow> bool" where
  "matured state p = (case maturityYear p of None \<Rightarrow> False | Some y \<Rightarrow> y \<noteq> 0 \<and> y \<le> year state)"

text \<open>
  The loop of \<open>handleMaturities\<close> visits the matured property objects in the order of
  \<open>state.properties\<close>. The model walks the collection itself: \<open>pre\<close> holds the properties
  before the current one as the loop has left them, \<open>p\<close> is the current one and \<open>post\<close>
  are the ones not yet visited, so that \<open>state.properties\<close> is \<open>pre @ p # post\<close>. A property
  is only changed when it is visited, so the test taken when the loop reaches it is the one
  \<open>filter\<close> took before the loop. \<open>sellProperty\<close> looks the property up by its id and
  removes the first property with that id, which lies in \<open>pre @ [p]\<close>.
\<close>

fun handleMaturities_loop :: "Data \<Rightarrow> State \<Rightarrow> Property list \<Rightarrow> Property list \<Rightarrow> rng \<Rightarrow> (State \<times> rng) option" where
  "handleMaturities_loop d state pre [] g = Some (state\<lparr>properties := pre\<rparr>, g)"
| "handleMaturities_loop d state pre (p # post) g =
     (if \<not> matured state p then handleMaturities_loop d state (pre @ [p]) post g
      else
        (case attemptRefi (state\<lparr>properties := pre @ p # post\<rparr>) p (productTypesById d) g of
           None \<Rightarrow> None
         | Some (ok, s1, p1, g1) \<Rightarrow>
             if ok then handleMaturities_loop d s1 (pre @ [p1]) post g1
             else
               (case sellProperty d s1 (p_id p) of
                  None \<Rightarrow> None
                | Some s2 \<Rightarrow>
                   (let s3 = (if cash s2 < 0 then s2\<lparr>cash := 0\<rparr> else s2)
                    in handleMaturities_loop d s3 (take (length pre) (properties s3)) post g1))))"

definition handleMaturities :: "Data \<Rightarrow> State \<Rightarrow> rng \<Rightarrow> (State \<times> rng) option" where
  "handleMaturities d state g =
     (let matured' = filter (matured state) (properties state)
      in if matured' = [] then Some (state, g)
         else handleMaturities_loop d state [] (properties state) g)"

fun updateNeighborhoods_loop :: "Neighborhood list \<Rightarrow> Market \<Rightarrow> rng \<Rightarrow> Neighborhood list \<times> rng" where
  "updateNeighborhoods_loop [] m g = ([], g)"
| "updateNeighborhoods_loop (n # ns) m g =
     (let (n', rentGrowth, g') = updateNeighborhoodYear n m g;
          (ns', g'') = updateNeighborhoods_loop ns m g'
      in (n' # ns', g''))"

definition applyEvent :: "State \<Rightarrow> Event option \<Rightarrow> State" where
  "applyEvent state event =
     (case event of
        None \<Rightarrow> state
      | Some ev \<Rightarrow>
          if scope ev = ''global'' then state\<lparr>market := applyEventToMarket (market state) ev\<rparr>
          else if scope ev = ''neighborhood'' then
            (case findIndex (\<lambda>x. n_id x = targetNeighborhood ev) (neighborhoods state) of
               None \<Rightarrow> state
             | Some i \<Rightarrow>
                 state\<lparr>neighborhoods :=
                   (neighborhoods state)[i := applyEventToNeighborhood (neighborhoods state ! i) ev]\<rparr>)
          else state)"

definition nextYear :: "Data \<Rightarrow> State \<Rightarrow> rng \<Rightarrow> (State \<times> rng) option" where
  "nextYear d state g =
     (let byId = productTypesById d;
          (event, g1) = pickEvent (events d) g;
          s1 = state\<lparr>year := year state + 1\<rparr>;
          (m, g2) = updateMarketYear (market s1) g1;
          s2 = s1\<lparr>market := m\<rparr>;
          s3 = applyEvent s2 event;
          (ns, g3) = updateNeighborhoods_loop (neighborhoods s3) (market s3) g2;
          s4 = s3\<lparr>neighborhoods := ns\<rparr>
      in case updateLeasesOneYear s4 g3 of
           None \<Rightarrow> None
         | Some (s5, g4) \<Rightarrow>
            (case processBuildPhases s5 g4 of
               None \<Rightarrow> None
             | Some (s6, g5) \<Rightarrow>
                (case handleMaturities d s6 g5 of
                   None \<Rightarrow> None
                 | Some (s7, g6) \<Rightarrow>
                    (case applyOperatingCashFlow s7 byId of
                       None \<Rightarrow> None
                     | Some s8 \<Rightarrow> generateListings d s8 g6))))"

subsection \<open>Runs\<close>

text \<open>
  Modelled from the spec: the file engine/rng.js, with \<open>seedFromString\<close> and \<open>mulberry32\<close>,
  is not among the sources. The specification describes a generator that, given an integer
  seed, produces an infinite sequence of values in \<open>[0,1)\<close>, without hidden global state, and
  a companion function that maps a text seed to a 32-bit integer seed, the same text always
  to the same seed. Both are therefore functions, taken as parameters of the model, and a
  generator is the stream of its outputs. \<open>makeRng\<close> uses the seed when it is a non-empty
  string and \<open>Math.floor(Math.random() * 1e9) >>> 0\<close> otherwise; the value of
  \<open>Math.random()\<close> is an input.
\<close>

record RngLib =
  seedFromString :: "string \<Rightarrow> nat"
  mulberry32 :: "nat \<Rightarrow> rng"

record Settings =
  seed :: "string option"
  difficulty :: "string option"

definition makeRng :: "RngLib \<Rightarrow> string option \<Rightarrow> real \<Rightarrow> rng" where
  "makeRng lib seedStr mathRandom =
     (let s = (case seedStr of
                 Some str \<Rightarrow> if str \<noteq> [] then seedFromString lib str
                             else nat (\<lfloor>mathRandom * 1000000000\<rfloor> mod 2 ^ 32)
               | None \<Rightarrow> nat (\<lfloor>mathRandom * 1000000000\<rfloor> mod 2 ^ 32))
      in mulberry32 lib s)"

text \<open>
  \<open>initRun(forceNew)\<close>. The run saved in the browser's storage, as \<open>loadRun()\<close> returns it,
  is the argument \<open>saved\<close> (\<open>None\<close> for \<open>null\<close>). Unless a new run is forced, a saved run
  is resumed: it becomes the state, every property without an initialized lease gets one,
  and the listings are generated anew. The generator is made from the seed of the settings
  in both cases, so a resumed run draws from the start of the seeded stream again.
  Otherwise a run is created from \<open>RUN_DEFAULTS\<close> and the reference data.
\<close>

definition ensureLease :: "State \<Rightarrow> Property \<Rightarrow> rng \<Rightarrow> (Property \<times> rng) option" where
  "ensureLease state p g =
     (case inPlaceRentIndex p of
        None \<Rightarrow> initLeaseForProperty state p g
      | Some x \<Rightarrow> Some (p, g))"

fun ensureLeases_loop :: "State \<Rightarrow> Property list \<Rightarrow> rng \<Rightarrow> (Property list \<times> rng) option" where
  "ensureLeases_loop state [] g = Some ([], g)"
| "ensureLeases_loop state (p # ps) g =
     (case ensureLease state p g of
        None \<Rightarrow> None
      | Some (p', g') \<Rightarrow>
         (case ensureLeases_loop state ps g' of
            None \<Rightarrow> None
          | Some (ps', g'') \<Rightarrow> Some (p' # ps', g'')))"

definition newRun :: "Data \<Rightarrow> Settings \<Rightarrow> State" where
  "newRun d settings =
     (let s0 = RUN_DEFAULTS;
          s1 = s0\<lparr>neighborhoods := map (\<lambda>n. n\<lparr>demand := baseDemand n\<rparr>) (d_neighborhoods d)\<rparr>;
          diff = (case difficulty settings of
                    Some x \<Rightarrow> if x \<noteq> [] then x else ''normal''
                  | None \<Rightarrow> ''normal'');
          s2 = (if diff = ''easy'' then s1\<lparr>cash := 4500000\<rparr> else s1);
          s3 = (if diff = ''hard'' then s2\<lparr>cash := 2200000\<rparr> else s2)
      in s3)"

definition initRun :: "RngLib \<Rightarrow> Data \<Rightarrow> Settings \<Rightarrow> bool \<Rightarrow> State option \<Rightarrow> real \<Rightarrow> (State \<times> rng) option" where
  "initRun lib d settings forceNew saved mathRandom =
     (let g = makeRng lib (seed settings) mathRandom
      in case (if forceNew then None else saved) of
           Some st \<Rightarrow>
             (case ensureLeases_loop st (properties st) g of
                None \<Rightarrow> None
              | Some (ps, g1) \<Rightarrow> generateListings d (st\<lparr>properties := ps\<rparr>) g1)
         | None \<Rightarrow> generateListings d (newRun d settings) g)"

text \<open>The player's actions, as the handlers of \<open>hookUI\<close> run them.\<close>

datatype Action = Buy string | StartBuild string string | Sell string | Renovate string | NextYear

fun perform :: "Data \<Rightarrow> State \<times> rng \<Rightarrow> Action \<Rightarrow> (State \<times> rng) option" where
  "perform d (state, g) (Buy i) =
     (case find (\<lambda>x. l_id x = i) (listings state) of
        None \<Rightarrow> Some (state, g)
      | Some listing \<Rightarrow>
         (case buyListing state listing g of
            None \<Rightarrow> None
          | Some (s1, g1) \<Rightarrow> Some (s1\<lparr>listings := filter (\<lambda>x. l_id x \<noteq> i) (listings s1)\<rparr>, g1)))"
| "perform d (state, g) (StartBuild n pt) =
     (case startBuild d state n pt g of None \<Rightarrow> None | Some (out, s1, g1) \<Rightarrow> Some (s1, g1))"
| "perform d (state, g) (Sell i) =
     (case sellProperty d state i of None \<Rightarrow> None | Some s1 \<Rightarrow> Some (s1, g))"
| "perform d (state, g) (Renovate i) =
     (case renovateProperty d state i of None \<Rightarrow> None | Some (out, s1) \<Rightarrow> Some (s1, g))"
| "perform d (state, g) NextYear = nextYear d state g"

fun play :: "Data \<Rightarrow> Action list \<Rightarrow> (State \<times> rng) option \<Rightarrow> (State \<times> rng) option" where
  "play d [] w = w"
| "play d (a # as) w = (case w of None \<Rightarrow> None | Some sg \<Rightarrow> play d as (perform d sg a))"

section \<open>The specification's reading of the per-property computations\<close>

text \<open>
  The following definitions are written from the words of the specification, to be
  compared with the functions above. The effective vacancy and cap rate of a property in
  its neighbourhood; whether the lease sub-state is initialized; the rent index, vacancy and
  expense ratio that enter a property's NOI; the NOI and the value of a property.
\<close>

definition spec_vacancy :: "Neighborhood \<Rightarrow> Property \<Rightarrow> real" where
  "spec_vacancy n p = clamp (vacancy n + vacancyDelta p) 0.01 0.40"

definition spec_capRate :: "Neighborhood \<Rightarrow> Property \<Rightarrow> real" where
  "spec_capRate n p = clamp (capRate n + capRateDelta p) 0.03 0.14"

definition leaseInitialized :: "Property \<Rightarrow> bool" where
  "leaseInitialized p = (case lease p of None \<Rightarrow> False | Some l \<Rightarrow> leaseRentIndex l \<noteq> None)"

definition spec_rentIndex :: "Neighborhood \<Rightarrow> Property \<Rightarrow> real" where
  "spec_rentIndex n p =
     (if leaseInitialized p then the (leaseRentIndex (the (lease p)))
      else rentIndex n * rentIndexMult p)"

definition spec_noi :: "State \<Rightarrow> (string \<Rightarrow> ProductType option) \<Rightarrow> Property \<Rightarrow> real option" where
  "spec_noi state byId p =
     (case (getNeighborhood state (neighborhood p), byId (productType p)) of
        (Some n, Some product) \<Rightarrow>
          computeNOI (baseNOI p) (spec_rentIndex n p) (spec_vacancy n p) (baseExpenseRatio product)
      | _ \<Rightarrow> None)"

definition spec_value :: "State \<Rightarrow> (string \<Rightarrow> ProductType option) \<Rightarrow> Property \<Rightarrow> real option" where
  "spec_value state byId p =
     (case (getNeighborhood state (neighborhood p), spec_noi state byId p) of
        (Some n, Some noi) \<Rightarrow> Some (noi / spec_capRate n p)
      | _ \<Rightarrow> None)"

definition spec_payment :: "Property \<Rightarrow> real option" where
  "spec_payment p =
     map_option payment (annualDebtService (loanBalance p) (loanRate p) (amortYears p) (interestOnly p))"

section \<open>The specification's reading of the maturity pass\<close>

text \<open>
  The refinance wall in the words of the specification. A property has matured when its
  maturity year is at most the current year. Its target LTV is the one it records (65% when
  it records none). The refinanced loan has the new balance, a freshly drawn rate, 30 years
  of amortization and a new balloon year. A forced sale goes through the disposition path
  (price = valuation, friction 2%, net = price - friction - balance) and floors the cash at 0.
  The pass walks the properties in order with the cash (and the journal) as left by the
  properties before, and returns the properties that remain.
\<close>

definition spec_matured :: "State \<Rightarrow> Property \<Rightarrow> bool" where
  "spec_matured state p = (case maturityYear p of None \<Rightarrow> False | Some y \<Rightarrow> y \<le> year state)"

definition targetLTV :: "Property \<Rightarrow> real" where
  "targetLTV p = (case ltv p of Some l \<Rightarrow> l | None \<Rightarrow> 0.65)"

definition spec_refinanced :: "State \<Rightarrow> Property \<Rightarrow> real \<Rightarrow> rng \<Rightarrow> Property" where
  "spec_refinanced state p newLoan g =
     p\<lparr>loanBalance := newLoan,
       loanRate := clamp (baseRate (market state) + spread (market state) + 0.018 + (shd g * 0.01)) 0.03 0.18,
       amortYears := 30, interestOnly := False,
       maturityYear := Some (year state + fst (makeMaturityYears (stl g)))\<rparr>"

definition spec_sale_net :: "Property \<Rightarrow> real \<Rightarrow> real" where
  "spec_sale_net p v = v - v * 0.02 - loanBalance p"

fun spec_maturity_pass :: "Data \<Rightarrow> State \<Rightarrow> real \<Rightarrow> JournalEntry list \<Rightarrow> Property list \<Rightarrow> rng \<Rightarrow> (real \<times> JournalEntry list \<times> Property list \<times> rng) option" where
  "spec_maturity_pass d env c j [] g = Some (c, j, [], g)"
| "spec_maturity_pass d env c j (p # ps) g =
     (if \<not> spec_matured env p then
        (case spec_maturity_pass d env c j ps g of
           None \<Rightarrow> None
         | Some (c', j', kept, g') \<Rightarrow> Some (c', j', p # kept, g'))
      else
        (case spec_value env (productTypesById d) p of
           None \<Rightarrow> None
         | Some v \<Rightarrow>
            (let newLoan = v * targetLTV p;
                 balance = loanBalance p
             in if newLoan \<ge> balance then
                  (case spec_maturity_pass d env (c + (newLoan - balance)) j ps (stl (stl g)) of
                     None \<Rightarrow> None
                   | Some (c', j', kept, g') \<Rightarrow> Some (c', j', spec_refinanced env p newLoan g # kept, g'))
                else if c \<ge> balance - newLoan then
                  (case spec_maturity_pass d env (c - (balance - newLoan)) j ps (stl (stl g)) of
                     None \<Rightarrow> None
                   | Some (c', j', kept, g') \<Rightarrow> Some (c', j', spec_refinanced env p newLoan g # kept, g'))
                else
                  (let c1 = c + spec_sale_net p v
                   in spec_maturity_pass d env (if c1 < 0 then 0 else c1)
                        (j @ [SELL (year env) (p_id p) v (spec_sale_net p v)]) ps (stl (stl g))))))"

definition spec_handleMaturities :: "Data \<Rightarrow> State \<Rightarrow> rng \<Rightarrow> (State \<times> rng) option" where
  "spec_handleMaturities d state g =
     (case spec_maturity_pass d state (cash state) (journal state) (properties state) g of
        None \<Rightarrow> None
      | Some (c, j, kept, g') \<Rightarrow> Some (state\<lparr>cash := c, journal := j, properties := kept\<rparr>, g'))"

text \<open>The run states that the maturity pass is specified for: the property ids are
  distinct, no maturity year is the number 0 and no target LTV is negative.\<close>

definition maturities_wf :: "State \<Rightarrow> bool" where
  "maturities_wf state \<longleftrightarrow>
     distinct (map p_id (properties state))
     \<and> list_all (\<lambda>p. maturityYear p \<noteq> Some 0 \<and> 0 \<le> targetLTV p) (properties state)"

text \<open>Two states with the same year, market and neighbourhoods.\<close>

definition same_env :: "State \<Rightarrow> State \<Rightarrow> bool" where
  "same_env s t \<longleftrightarrow> year s = year t \<and> market s = market t \<and> neighborhoods s = neighborhoods t"

section \<open>Auxiliary predicates and example data\<close>

definition in_range :: "real \<Rightarrow> real \<Rightarrow> real \<Rightarrow> bool" where
  "in_range x lo hi \<longleftrightarrow> lo \<le> x \<and> x \<le> hi"

definition n0 :: Neighborhood where
  "n0 = \<lparr>n_id = ''dt'', n_name = ''Downtown'', zoning = [''office'', ''hotel''],
     baseDemand = 0.8, demand = 1.1, rentIndex = 1.7, vacancy = 0.05, capRate = 0.05, scarcity = 0.5\<rparr>"

definition ev0 :: Event where
  "ev0 = \<lparr>e_name = ''Boom'', scope = ''neighborhood'', targetNeighborhood = ''dt'',
     effects = Some (no_effects\<lparr>demandDelta := Some 5, rentIndexDelta := Some 0.4, e_capRateDelta := Some (- 1)\<rparr>)\<rparr>"

text \<open>
  A small run for the worked examples: one neighbourhood, one product type, the generator
  that always returns \<open>1/2\<close>, and three hotel properties whose loans mature in year 10.
  Each is worth 19,000,000 (NOI 950,000 at a cap rate of 5%), so that a refinance at 65%
  brings a new loan of 12,350,000.
\<close>

definition nb1 :: Neighborhood where
  "nb1 = \<lparr>n_id = ''dt'', n_name = ''Downtown'', zoning = [''office'', ''hotel''],
     baseDemand = 4 / 5, demand = 4 / 5, rentIndex = 1, vacancy = 1 / 20, capRate = 1 / 20,
     scarcity = 1 / 2\<rparr>"

definition hotel :: ProductType where
  "hotel = \<lparr>pt_id = ''hotel'', pt_name = ''Hotel'', baseExpenseRatio = 1 / 2,
     pt_build = \<lparr>yearsToBuild = 2, yearsToStabilize = 1, pb_leaseUpVacancy = 3 / 20\<rparr>\<rparr>"

definition data1 :: Data where
  "data1 = \<lparr>d_neighborhoods = [nb1], productTypes = [hotel], events = []\<rparr>"

definition g_half :: rng where
  "g_half = sconst (1 / 2)"

definition propA :: Property where
  "propA = \<lparr>p_id = ''PA'', p_name = ''A'', neighborhood = ''dt'', productType = ''hotel'',
     baseNOI = 1000000, rentIndexMult = 1, vacancyDelta = 0, capRateDelta = 0,
     renoLevel = Some 0, ltv = Some (13 / 20), loanBalance = 13000000, loanRate = 1 / 20,
     amortYears = 30, interestOnly = True, maturityYear = Some 10, build = None,
     lease = Some \<lparr>yearsRemaining = 1, rollPct = 1, leaseRentIndex = Some 1\<rparr>\<rparr>"

definition propB :: Property where
  "propB = propA\<lparr>p_id := ''PB'', p_name := ''B'', rentIndexMult := 6 / 5,
     lease := Some \<lparr>yearsRemaining = 3, rollPct = 1, leaseRentIndex = Some 1\<rparr>\<rparr>"

definition propC :: Property where
  "propC = propA\<lparr>p_id := ''PC'', p_name := ''C'', loanBalance := 30000000, lease := None\<rparr>"

definition st1 :: State where
  "st1 = RUN_DEFAULTS\<lparr>year := 10, cash := 100000, neighborhoods := [nb1],
     properties := [propA, propB, propC]\<rparr>"

definition snapA1 :: Snapshot where
  "snapA1 = \<lparr>sn_n = nb1, sn_product = hotel, sn_noi = 950000, sn_capRate = 1 / 20,
     sn_value = 19000000,
     sn_ds = Some \<lparr>payment = 650000, interest = 650000, principal = 0\<rparr>\<rparr>"


definition after1 :: State where
  "after1 = st1\<lparr>cash := 0,
     properties := [propB\<lparr>loanBalance := 12350000, loanRate := 11 / 125, amortYears := 30,
                          interestOnly := False, maturityYear := Some 17\<rparr>],
     journal := [SELL 10 ''PA'' 19000000 5620000, SELL 10 ''PC'' 19000000 (- 11380000)]\<rparr>"

text \<open>
  A seeded run for the worked examples. The generator library is a stand-in for the one of
  the repository: the seed of a text is its length, and the generator of seed \<open>n\<close> returns
  \<open>n/6\<close> at every draw, so that the seed \<open>abc\<close> gives the generator that always returns
  \<open>1/2\<close> and the seed \<open>a\<close> the one that always returns \<open>1/6\<close>.
\<close>

definition lib1 :: RngLib where
  "lib1 = \<lparr>seedFromString = length, mulberry32 = (\<lambda>n. sconst (of_nat n / 6))\<rparr>"

definition settings1 :: Settings where
  "settings1 = \<lparr>seed = Some ''abc'', difficulty = Some ''easy''\<rparr>"

definition listing0 :: "nat \<Rightarrow> Listing" where
  "listing0 i = \<lparr>l_id = ''L1-'' @ show_nat i @ ''-500000'', l_name = ''Downtown'' @ emdash @ ''Hotel'',
     l_neighborhood = ''dt'', l_productType = ''hotel'', price = 15200000, l_baseNOI = 800000,
     loanTerms = \<lparr>lt_ltv = 13 / 20, lt_rate = 41 / 500, lt_amortYears = 30,
                  lt_interestOnly = False\<rparr>\<rparr>"

definition run0 :: State where
  "run0 = RUN_DEFAULTS\<lparr>neighborhoods := [nb1], cash := 4500000,
     listings := [listing0 0, listing0 1, listing0 2]\<rparr>"

definition year1_nb :: Neighborhood where
  "year1_nb = nb1\<lparr>demand := 4 / 5, vacancy := 731 / 10000, rentIndex := 41069 / 40000,
     capRate := 443547 / 8000000\<rparr>"

text \<open>
  The generator \<open>g'\<close> is the generator \<open>g\<close> after some number of draws: the same stream,
  further on.
\<close>

definition advanced :: "rng \<Rightarrow> rng \<Rightarrow> bool" where
  "advanced g g' \<longleftrightarrow> (\<exists>k. g' = sdrop k g)"

text \<open>
  Two properties that carry the same id, as two builds started in one year do when the
  draws for their ids coincide. Both loans have matured in year 10 of the small run; the
  first can be refinanced (balance 12,000,000 against a new loan of 12,350,000), the
  second cannot (balance 30,000,000, cash 450,000 after the first refinance).
\<close>

definition twinA :: Property where
  "twinA = propA\<lparr>p_id := ''B7-500000'', p_name := ''Twin A'', loanBalance := 12000000\<rparr>"

definition twinB :: Property where
  "twinB = propA\<lparr>p_id := ''B7-500000'', p_name := ''Twin B'', loanBalance := 30000000\<rparr>"

definition twins :: State where
  "twins = RUN_DEFAULTS\<lparr>year := 10, cash := 100000, neighborhoods := [nb1],
     properties := [twinA, twinB]\<rparr>"

definition refinancedA :: Property where
  "refinancedA = twinA\<lparr>loanBalance := 12350000, loanRate := 11 / 125, amortYears := 30,
     interestOnly := False, maturityYear := Some 17\<rparr>"

text \<open>
  The market and every neighbourhood of a run state within the declared domains, and
  reference data whose neighbourhoods start a run within them (\<open>initRun\<close> sets the demand
  of a neighbourhood to its \<open>baseDemand\<close>).
\<close>

definition state_ok :: "State \<Rightarrow> bool" where
  "state_ok s \<longleftrightarrow> market_ok (market s) \<and> list_all nbhd_ok (neighborhoods s)"

definition data_ok :: "Data \<Rightarrow> bool" where
  "data_ok d \<longleftrightarrow> list_all (\<lambda>n. nbhd_ok (n\<lparr>demand := baseDemand n\<rparr>)) (d_neighborhoods d)"

text \<open>
  Reference data in which the neighbourhood of the examples has the anchor demand 1.5, and
  an event that carries a rent delta only.
\<close>

definition nb_hot :: Neighborhood where
  "nb_hot = nb1\<lparr>baseDemand := 3 / 2\<rparr>"

definition ev_rent :: Event where
  "ev_rent = \<lparr>e_name = ''Rents up'', scope = ''neighborhood'', targetNeighborhood = ''dt'',
     effects = Some (no_effects\<lparr>rentIndexDelta := Some (1 / 10)\<rparr>)\<rparr>"

definition data_hot :: Data where
  "data_hot = \<lparr>d_neighborhoods = [nb_hot], productTypes = [hotel], events = [ev_rent]\<rparr>"

definition run_hot :: State where
  "run_hot = run0\<lparr>neighborhoods := [nb_hot\<lparr>demand := 3 / 2\<rparr>]\<rparr>"

section \<open>Properties of the financial primitives\<close>

lemma clamp_bounds: "lo \<le> hi \<Longrightarrow> lo \<le> clamp x lo hi \<and> clamp x lo hi \<le> hi"
  by (simp add: clamp_def)

lemma computeEffectiveRentFactor_range:
  "0.92 \<le> computeEffectiveRentFactor v \<and> computeEffectiveRentFactor v \<le> 1"
  using clamp_bounds [of 0 "0.08" "(v - 0.05) * 0.5"]
  by (simp add: computeEffectiveRentFactor_def Let_def)


lemma clamp_lower: "lo \<le> hi \<Longrightarrow> lo \<le> clamp x lo hi"
  by (simp add: clamp_def)

lemma clamp_upper: "lo \<le> hi \<Longrightarrow> clamp x lo hi \<le> hi"
  by (simp add: clamp_def)

lemma computeNOI_formula:
  assumes "e \<noteq> 1"
  shows "computeNOI b ri v e = Some (max 0 (b * ri * (1 - v) * computeEffectiveRentFactor v))"
proof -
  let ?rf = "ri * (1 - v) * computeEffectiveRentFactor v"
  have ne: "1 - e \<noteq> 0" using assms by simp
  have "x - x * e = x * (1 - e)" for x :: real
    by (simp add: algebra_simps)
  then have "b / (1 - e) * ?rf - b / (1 - e) * ?rf * e = b / (1 - e) * ?rf * (1 - e)" .
  also have "\<dots> = b * ?rf" using ne by simp
  finally have "b / (1 - e) * ?rf - b / (1 - e) * ?rf * e = b * ri * (1 - v) * computeEffectiveRentFactor v"
    by (simp add: mult.assoc)
  then show ?thesis using ne by (simp add: computeNOI_def Let_def)
qed

lemma computeNOI_nonneg: "computeNOI b ri v e = Some y \<Longrightarrow> 0 \<le> y"
  by (cases "1 - e = 0") (auto simp: computeNOI_def Let_def)

lemma example_rent_factor: "computeEffectiveRentFactor (1 / 5) = 37 / 40"
  by (simp add: computeEffectiveRentFactor_def clamp_def)

text \<open>
  Claim C5. For \<open>expenseRatio < 1\<close>, \<open>computeNOI\<close> is
  \<open>max 0 (baseNOI * rentIndex * (1 - vacancy) * effectiveRentFactor vacancy)\<close>, where
  the effective rent factor is \<open>1 - clamp ((vacancy - 0.05) * 0.5) 0 0.08\<close> and lies in
  \<open>[0.92, 1]\<close> for every vacancy; and whatever number \<open>computeNOI\<close> returns is not negative,
  for all inputs.
\<close>

theorem computeNOI_closed_form:
  "(e < 1 \<longrightarrow> computeNOI b ri v e = Some (max 0 (b * ri * (1 - v) * computeEffectiveRentFactor v)))
   \<and> computeEffectiveRentFactor v = 1 - clamp ((v - 0.05) * 0.5) 0 0.08
   \<and> 0.92 \<le> computeEffectiveRentFactor v \<and> computeEffectiveRentFactor v \<le> 1
   \<and> (\<forall>y. computeNOI b ri v e = Some y \<longrightarrow> 0 \<le> y)"
proof (intro conjI allI impI)
  show "computeNOI b ri v e = Some (max 0 (b * ri * (1 - v) * computeEffectiveRentFactor v))" if "e < 1"
    using that by (intro computeNOI_formula) simp
  show "computeEffectiveRentFactor v = 1 - clamp ((v - 0.05) * 0.5) 0 0.08"
    by (simp add: computeEffectiveRentFactor_def Let_def)
  show "0.92 \<le> computeEffectiveRentFactor v" "computeEffectiveRentFactor v \<le> 1"
    using computeEffectiveRentFactor_range [of v] by simp_all
  show "0 \<le> y" if "computeNOI b ri v e = Some y" for y
    using that by (rule computeNOI_nonneg)
qed

theorem computeNOI_closed_form_witness:
  "(7 / 20 :: real) < 1
   \<and> computeNOI 500000 (11 / 10) (1 / 5) (7 / 20)
       = Some (max 0 (500000 * (11 / 10) * (1 - 1 / 5) * computeEffectiveRentFactor (1 / 5)))
   \<and> computeNOI 500000 (11 / 10) (1 / 5) (7 / 20) = Some 407000"
proof -
  have h: "(7 / 20 :: real) < 1" by simp
  have "computeNOI 500000 (11 / 10) (1 / 5) (7 / 20)
      = Some (max 0 (500000 * (11 / 10) * (1 - 1 / 5) * computeEffectiveRentFactor (1 / 5)))"
    using computeNOI_closed_form [of "7 / 20" 500000 "11 / 10" "1 / 5"] h by simp
  then show ?thesis using h by (simp add: example_rent_factor)
qed

lemma spec_repay_closed:
  "r \<noteq> 0 \<Longrightarrow> spec_repay b r p k = b * (1 + r) ^ k - p * ((1 + r) ^ k - 1) / r"
proof (induction k arbitrary: b)
  case 0
  then show ?case by simp
next
  case (Suc k)
  have "spec_repay b r p (Suc k) = (b * (1 + r) - p) * (1 + r) ^ k - p * ((1 + r) ^ k - 1) / r"
    using Suc by simp
  also have "\<dots> = b * (1 + r) ^ Suc k - p * ((1 + r) ^ Suc k - 1) / r"
    using Suc.prems by (simp add: field_simps)
  finally show ?case .
qed

lemma amortizing_payment_repays:
  assumes "0 < b" "0 < r" "1 \<le> n"
  shows "\<exists>ds. annualDebtService b r n False = Some ds
      \<and> payment ds = b * r / (1 - 1 / (1 + r) ^ nat n)
      \<and> interest ds = b * r
      \<and> principal ds = max 0 (payment ds - interest ds)
      \<and> spec_repay b r (payment ds) (nat n) = 0"
proof -
  define q where "q = (1 + r) ^ nat n"
  have q1: "1 < q" unfolding q_def using assms by (simp add: one_less_power)
  then have d: "1 - 1 / q \<noteq> 0" by simp
  have n: "nat (max 1 n) = nat n" using assms by simp
  have ads: "annualDebtService b r n False =
     Some \<lparr>payment = b * r / (1 - 1 / q), interest = b * r, principal = max 0 (b * r / (1 - 1 / q) - b * r)\<rparr>"
    using assms d by (simp add: annualDebtService_def Let_def n q_def)
  have sr: "spec_repay b r p (nat n) = b * q - p * (q - 1) / r" for p
    using assms by (simp add: spec_repay_closed q_def)
  have q0: "q \<noteq> 0" "q \<noteq> 1" "r \<noteq> 0" using q1 assms by simp_all
  have "1 - 1 / q = (q - 1) / q" using q0 by (simp add: field_simps)
  then have "b * q - (b * r / (1 - 1 / q)) * (q - 1) / r = 0"
    using q0 by simp
  then have "spec_repay b r (b * r / (1 - 1 / q)) (nat n) = 0"
    by (simp only: sr)
  then show ?thesis using ads by (simp add: q_def)
qed

text \<open>
  Claim C7. For the amortizing loan with balance 1,000,000, rate 0.05 and 30 years,
  \<open>annualDebtService\<close> returns the payment \<open>balance * rate / (1 - (1 + rate)^-30)\<close>, the
  interest \<open>balance * rate\<close> and the principal \<open>max 0 (payment - interest)\<close>; repaying with this
  payment for 30 years, with interest on the declining balance, leaves the balance 0.
  In exact arithmetic the final balance is exactly 0; the tolerance of the claim is
  the rounding of the doubles.
\<close>

theorem amortization_consistency:
  "\<exists>ds. annualDebtService 1000000 0.05 30 False = Some ds
      \<and> payment ds = 1000000 * 0.05 / (1 - 1 / (1 + 0.05) ^ 30)
      \<and> interest ds = 1000000 * 0.05
      \<and> principal ds = max 0 (payment ds - interest ds)
      \<and> spec_repay 1000000 0.05 (payment ds) 30 = 0"
  using amortizing_payment_repays [of 1000000 "0.05" 30] by simp

section \<open>The IRR solver\<close>

lemmas fl_eval = fl_def rd_def expo_def expo_step_def pow2_def rne_def Let_def

lemma solver_literals: "rd (- 0.9) = - 8106479329266893 / 2 ^ 53" "rd 1.5 = 3 / 2"
  "rd 0.000001 = 4722366482869645 / 2 ^ 72"
  by (simp_all add: fl_eval)

lemma solveIRR_start:
  assumes "rd (- 0.9) = L" "rd 1.5 = H" "npv cfs L = fLo" "npv cfs H = fHi"
  shows "solveIRR cfs =
     (if \<not> isFinite fLo \<or> \<not> isFinite fHi then NaN
      else if jgt (jmul fLo fHi) 0 then NaN else bisect 80 cfs fLo L H)"
  using assms by (simp add: solveIRR_def Let_def)

lemma bisect_step:
  assumes "0 < n" "midpoint lo hi = m" "npv cfs m = f"
  shows "bisect n cfs fLo lo hi =
     (if jlt (jabs f) (rd 0.000001) then Num m
      else if jle (jmul fLo f) 0 then bisect (n - 1) cfs fLo lo m
      else bisect (n - 1) cfs fLo m hi)"
proof -
  from assms(1) obtain k where "n = Suc k" by (cases n) auto
  then show ?thesis using assms(2,3) by (simp add: Let_def)
qed

text \<open>
  Three runs of the solver. On \<open>[100, 50, 50]\<close> both bound values are positive and the
  result is NaN. On \<open>[-1, 1.6]\<close> the first midpoint 0.3 has a positive value and becomes the
  lower bound, the second midpoint 0.9 has a negative value of magnitude 0.16 and becomes
  the upper bound, and the third midpoint 0.6 has the value 0 and is returned. On the
  stream of three entries \<open>2^-600\<close> both bound values are positive, but their product is
  below the smallest double and rounds to 0, so the test \<open>fLo * fHi > 0\<close> fails and the
  first midpoint is returned, its value being below \<open>1e-6\<close>.
\<close>

lemma example_solveIRR_tiny:
  "solveIRR [Num (1 / 2 ^ 600), Num (1 / 2 ^ 600), Num (1 / 2 ^ 600)] = Num (5404319552844595 / 2 ^ 54)"
proof -
  let ?cfs = "[Num (1 / 2 ^ 600), Num (1 / 2 ^ 600), Num (1 / 2 ^ 600)]"
  have fLo: "npv ?cfs (- 8106479329266893 / 2 ^ 53) = Num (1952732650930177 / 2 ^ 644)"
    by (simp add: npv_def jpow_def fl_eval)
  have fHi: "npv ?cfs (3 / 2) = Num (7025615418697973 / 2 ^ 652)"
    by (simp add: npv_def jpow_def fl_eval)
  have start: "solveIRR ?cfs = bisect 80 ?cfs (Num (1952732650930177 / 2 ^ 644)) (- 8106479329266893 / 2 ^ 53) (3 / 2)"
    by (rule solveIRR_start [OF solver_literals(1) solver_literals(2) fLo fHi, THEN trans]) (simp add: isFinite_def fl_eval)
  have m0: "midpoint (- 8106479329266893 / 2 ^ 53) (3 / 2) = 5404319552844595 / 2 ^ 54"
    by (simp add: midpoint_def fl_eval)
  have f0: "npv ?cfs (5404319552844595 / 2 ^ 54) = Num (5316379441777597 / 2 ^ 651)"
    by (simp add: npv_def jpow_def fl_eval)
  have s0: "bisect 80 ?cfs (Num (1952732650930177 / 2 ^ 644)) (- 8106479329266893 / 2 ^ 53) (3 / 2) = Num (5404319552844595 / 2 ^ 54)"
    by (rule bisect_step [OF _ m0 f0, THEN trans]) (simp_all add: solver_literals fl_eval)
  show ?thesis using start s0 by (simp only:)
qed

lemma example_solveIRR_positive:
  "solveIRR [Num (100), Num (50), Num (50)] = NaN"
proof -
  let ?cfs = "[Num (100), Num (50), Num (50)]"
  have fLo: "npv ?cfs (- 8106479329266893 / 2 ^ 53) = Num (6157265115545603 / 2 ^ 40)"
    by (simp add: npv_def jpow_def fl_eval)
  have fHi: "npv ?cfs (3 / 2) = Num (128)"
    by (simp add: npv_def jpow_def fl_eval)
  show ?thesis
    by (rule solveIRR_start [OF solver_literals(1) solver_literals(2) fLo fHi, THEN trans]) (simp add: isFinite_def fl_eval)
qed

lemma example_solveIRR_bisection:
  "solveIRR [Num (- 1), Num (3602879701896397 / 2 ^ 51)] = Num (5404319552844595 / 2 ^ 53)"
proof -
  let ?cfs = "[Num (- 1), Num (3602879701896397 / 2 ^ 51)]"
  have fLo: "npv ?cfs (- 8106479329266893 / 2 ^ 53) = Num (4222124650659841 / 2 ^ 48)"
    by (simp add: npv_def jpow_def fl_eval)
  have fHi: "npv ?cfs (3 / 2) = Num (- 3242591731706757 / 2 ^ 53)"
    by (simp add: npv_def jpow_def fl_eval)
  have start: "solveIRR ?cfs = bisect 80 ?cfs (Num (4222124650659841 / 2 ^ 48)) (- 8106479329266893 / 2 ^ 53) (3 / 2)"
    by (rule solveIRR_start [OF solver_literals(1) solver_literals(2) fLo fHi, THEN trans]) (simp add: isFinite_def fl_eval)
  have m0: "midpoint (- 8106479329266893 / 2 ^ 53) (3 / 2) = 5404319552844595 / 2 ^ 54"
    by (simp add: midpoint_def fl_eval)
  have f0: "npv ?cfs (5404319552844595 / 2 ^ 54) = Num (259823055425221 / 2 ^ 50)"
    by (simp add: npv_def jpow_def fl_eval)
  have s0: "bisect 80 ?cfs (Num (4222124650659841 / 2 ^ 48)) (- 8106479329266893 / 2 ^ 53) (3 / 2) = bisect 79 ?cfs (Num (4222124650659841 / 2 ^ 48)) (5404319552844595 / 2 ^ 54) (3 / 2)"
    by (rule bisect_step [OF _ m0 f0, THEN trans]) (simp_all add: solver_literals fl_eval)
  have m1: "midpoint (5404319552844595 / 2 ^ 54) (3 / 2) = 8106479329266893 / 2 ^ 53"
    by (simp add: midpoint_def fl_eval)
  have f1: "npv ?cfs (8106479329266893 / 2 ^ 53) = Num (- 1422189356011735 / 2 ^ 53)"
    by (simp add: npv_def jpow_def fl_eval)
  have s1: "bisect 79 ?cfs (Num (4222124650659841 / 2 ^ 48)) (5404319552844595 / 2 ^ 54) (3 / 2) = bisect 78 ?cfs (Num (4222124650659841 / 2 ^ 48)) (5404319552844595 / 2 ^ 54) (8106479329266893 / 2 ^ 53)"
    by (rule bisect_step [OF _ m1 f1, THEN trans]) (simp_all add: solver_literals fl_eval)
  have m2: "midpoint (5404319552844595 / 2 ^ 54) (8106479329266893 / 2 ^ 53) = 5404319552844595 / 2 ^ 53"
    by (simp add: midpoint_def fl_eval)
  have f2: "npv ?cfs (5404319552844595 / 2 ^ 53) = Num (0)"
    by (simp add: npv_def jpow_def fl_eval)
  have s2: "bisect 78 ?cfs (Num (4222124650659841 / 2 ^ 48)) (5404319552844595 / 2 ^ 54) (8106479329266893 / 2 ^ 53) = Num (5404319552844595 / 2 ^ 53)"
    by (rule bisect_step [OF _ m2 f2, THEN trans]) (simp_all add: solver_literals fl_eval)
  show ?thesis using start s0 s1 s2 by (simp only:)
qed

lemma example_tiny_bounds:
  "npv [Num (1 / 2 ^ 600), Num (1 / 2 ^ 600), Num (1 / 2 ^ 600)] (rd (- 0.9)) = Num (1952732650930177 / 2 ^ 644)"
  "npv [Num (1 / 2 ^ 600), Num (1 / 2 ^ 600), Num (1 / 2 ^ 600)] (rd 1.5) = Num (7025615418697973 / 2 ^ 652)"
  "jmul (Num (1952732650930177 / 2 ^ 644)) (Num (7025615418697973 / 2 ^ 652)) = Num 0"
  by (simp_all add: solver_literals npv_def jpow_def fl_eval)

text \<open>
  Claim C4 fails on the code for streams of very small numbers. The stream of three entries
  \<open>2^-600\<close> is all-positive; its values at the two bounds are finite and share their sign,
  but the solver returns the number 0.3 instead of NaN, because the product of the two
  values underflows to 0. On \<open>[100, 50, 50]\<close> the solver returns NaN, and on \<open>[-1, 1.6]\<close>
  it returns the third midpoint 0.6, as the claim says.
\<close>

theorem solveIRR_sign_test_underflow:
  "all_positive [Num (1 / 2 ^ 600), Num (1 / 2 ^ 600), Num (1 / 2 ^ 600)]
   \<and> npv [Num (1 / 2 ^ 600), Num (1 / 2 ^ 600), Num (1 / 2 ^ 600)] (rd (- 0.9)) = Num (1952732650930177 / 2 ^ 644)
   \<and> npv [Num (1 / 2 ^ 600), Num (1 / 2 ^ 600), Num (1 / 2 ^ 600)] (rd 1.5) = Num (7025615418697973 / 2 ^ 652)
   \<and> jmul (Num (1952732650930177 / 2 ^ 644)) (Num (7025615418697973 / 2 ^ 652)) = Num 0
   \<and> solveIRR [Num (1 / 2 ^ 600), Num (1 / 2 ^ 600), Num (1 / 2 ^ 600)] = Num (5404319552844595 / 2 ^ 54)
   \<and> solveIRR [Num 100, Num 50, Num 50] = NaN
   \<and> solveIRR [Num (- 1), Num (3602879701896397 / 2 ^ 51)] = Num (5404319552844595 / 2 ^ 53)"
proof -
  have "all_positive [Num (1 / 2 ^ 600), Num (1 / 2 ^ 600), Num (1 / 2 ^ 600)]"
    by (simp add: all_positive_def)
  then show ?thesis
    using example_tiny_bounds example_solveIRR_tiny example_solveIRR_positive
      example_solveIRR_bisection by (simp only: simp_thms)
qed

text \<open>
  At the failing input neither bound value is infinite or NaN, so the first test of the
  solver does not apply, and the result is a number.
\<close>

theorem solveIRR_sign_test_underflow_witness:
  "isFinite (npv [Num (1 / 2 ^ 600), Num (1 / 2 ^ 600), Num (1 / 2 ^ 600)] (rd (- 0.9)))
   \<and> isFinite (npv [Num (1 / 2 ^ 600), Num (1 / 2 ^ 600), Num (1 / 2 ^ 600)] (rd 1.5))
   \<and> isFinite (solveIRR [Num (1 / 2 ^ 600), Num (1 / 2 ^ 600), Num (1 / 2 ^ 600)])
   \<and> solveIRR [Num (1 / 2 ^ 600), Num (1 / 2 ^ 600), Num (1 / 2 ^ 600)] \<noteq> NaN"
proof -
  note t = solveIRR_sign_test_underflow
  have 1: "isFinite (npv [Num (1 / 2 ^ 600), Num (1 / 2 ^ 600), Num (1 / 2 ^ 600)] (rd (- 0.9)))"
    using t by (simp only: isFinite_def jsnum.case)
  have 2: "isFinite (npv [Num (1 / 2 ^ 600), Num (1 / 2 ^ 600), Num (1 / 2 ^ 600)] (rd 1.5))"
    using t by (simp only: isFinite_def jsnum.case)
  have 3: "isFinite (solveIRR [Num (1 / 2 ^ 600), Num (1 / 2 ^ 600), Num (1 / 2 ^ 600)])"
    using t by (simp only: isFinite_def jsnum.case)
  have 4: "solveIRR [Num (1 / 2 ^ 600), Num (1 / 2 ^ 600), Num (1 / 2 ^ 600)] \<noteq> NaN"
    using t by (simp only: jsnum.distinct simp_thms)
  show ?thesis using 1 2 3 4 by (simp only: simp_thms)
qed

section \<open>The per-property computations\<close>


lemma spec_vacancy_range: "0.01 \<le> spec_vacancy n p \<and> spec_vacancy n p \<le> 0.40"
  using clamp_bounds [of "0.01" "0.40" "vacancy n + vacancyDelta p"] by (simp add: spec_vacancy_def)

lemma spec_capRate_range: "0.03 \<le> spec_capRate n p \<and> spec_capRate n p \<le> 0.14"
  using clamp_bounds [of "0.03" "0.14" "capRate n + capRateDelta p"] by (simp add: spec_capRate_def)

lemma spec_capRate_pos: "0 < spec_capRate n p"
  unfolding spec_capRate_def by (simp add: clamp_def less_max_iff_disj)

lemma rentIndexArg_spec: "rentIndexArg p n = spec_rentIndex n p"
  by (auto simp: rentIndexArg_def spec_rentIndex_def inPlaceRentIndex_def leaseInitialized_def
      split: option.splits)

lemma valueFromNOI_spec: "valueFromNOI noi (spec_capRate n p) = noi / spec_capRate n p"
  using spec_capRate_pos [of n p] by (simp add: valueFromNOI_def)

lemma computePropertySnapshot_spec:
  "computePropertySnapshot s p byId =
     (case getNeighborhood s (neighborhood p) of
        None \<Rightarrow> None
      | Some n \<Rightarrow>
         (case byId (productType p) of
            None \<Rightarrow> None
          | Some product \<Rightarrow>
             (case computeNOI (baseNOI p) (spec_rentIndex n p) (spec_vacancy n p) (baseExpenseRatio product) of
                None \<Rightarrow> None
              | Some noi \<Rightarrow>
                  Some \<lparr>sn_n = n, sn_product = product, sn_noi = noi, sn_capRate = spec_capRate n p,
                        sn_value = noi / spec_capRate n p,
                        sn_ds = annualDebtService (loanBalance p) (loanRate p) (amortYears p) (interestOnly p)\<rparr>)))"
  unfolding computePropertySnapshot_def Let_def rentIndexArg_spec
    spec_vacancy_def [symmetric] spec_capRate_def [symmetric] valueFromNOI_spec ..

lemma snapshot_Some:
  assumes "computePropertySnapshot s p byId = Some snap"
  shows "getNeighborhood s (neighborhood p) = Some (sn_n snap) \<and> byId (productType p) = Some (sn_product snap)
     \<and> computeNOI (baseNOI p) (spec_rentIndex (sn_n snap) p) (spec_vacancy (sn_n snap) p)
          (baseExpenseRatio (sn_product snap)) = Some (sn_noi snap)
     \<and> sn_capRate snap = spec_capRate (sn_n snap) p
     \<and> sn_value snap = sn_noi snap / spec_capRate (sn_n snap) p
     \<and> sn_ds snap = annualDebtService (loanBalance p) (loanRate p) (amortYears p) (interestOnly p)"
  using assms unfolding computePropertySnapshot_spec
  by (auto split: option.splits)

lemma snapshot_noi: "map_option sn_noi (computePropertySnapshot s p byId) = spec_noi s byId p"
  unfolding computePropertySnapshot_spec spec_noi_def
  by (auto split: option.splits)

lemma snapshot_value: "map_option sn_value (computePropertySnapshot s p byId) = spec_value s byId p"
  unfolding computePropertySnapshot_spec spec_value_def spec_noi_def
  by (auto split: option.splits)


lemma computePortfolio_loop_Cons:
  "computePortfolio_loop s byId (p # ps) t =
     (case spec_noi s byId p of
        None \<Rightarrow> None
      | Some noi \<Rightarrow>
         (case spec_value s byId p of
            None \<Rightarrow> None
          | Some v \<Rightarrow>
             (case spec_payment p of
                None \<Rightarrow> None
              | Some pay \<Rightarrow>
                  computePortfolio_loop s byId ps
                    \<lparr>t_value = t_value t + v, t_debt = t_debt t + loanBalance p,
                     t_noi = t_noi t + noi, t_cf = t_cf t + (noi - pay), t_ds = t_ds t + pay\<rparr>)))"
  unfolding computePortfolio_loop.simps Let_def rentIndexArg_spec
    spec_vacancy_def [symmetric] spec_capRate_def [symmetric] valueFromNOI_spec
    getNeighborhood_def [symmetric] spec_noi_def spec_value_def spec_payment_def
  by (auto split: option.splits)

lemma computePortfolio_loop_sums:
  "computePortfolio_loop s byId ps t = Some t' \<Longrightarrow>
     (\<forall>p\<in>set ps. spec_noi s byId p \<noteq> None \<and> spec_value s byId p \<noteq> None \<and> spec_payment p \<noteq> None)
     \<and> t_noi t' = t_noi t + (\<Sum>p\<leftarrow>ps. the (spec_noi s byId p))
     \<and> t_value t' = t_value t + (\<Sum>p\<leftarrow>ps. the (spec_value s byId p))
     \<and> t_debt t' = t_debt t + (\<Sum>p\<leftarrow>ps. loanBalance p)
     \<and> t_ds t' = t_ds t + (\<Sum>p\<leftarrow>ps. the (spec_payment p))
     \<and> t_cf t' = t_cf t + (\<Sum>p\<leftarrow>ps. the (spec_noi s byId p) - the (spec_payment p))"
proof (induction ps arbitrary: t)
  case Nil
  then show ?case by simp
next
  case (Cons p ps)
  from Cons.prems obtain noi v pay where
    a: "spec_noi s byId p = Some noi" "spec_value s byId p = Some v" "spec_payment p = Some pay"
    and r: "computePortfolio_loop s byId ps
              \<lparr>t_value = t_value t + v, t_debt = t_debt t + loanBalance p,
               t_noi = t_noi t + noi, t_cf = t_cf t + (noi - pay), t_ds = t_ds t + pay\<rparr> = Some t'"
    unfolding computePortfolio_loop_Cons by (auto split: option.splits)
  from Cons.IH [OF r] a show ?case by simp
qed

lemma applyOperatingCashFlow_loop_Cons:
  "applyOperatingCashFlow_loop s byId (p # ps) tot =
     (case spec_noi s byId p of
        None \<Rightarrow> None
      | Some noi \<Rightarrow>
         (case annualDebtService (loanBalance p) (loanRate p) (amortYears p) (interestOnly p) of
            None \<Rightarrow> None
          | Some ds \<Rightarrow>
             (case applyOperatingCashFlow_loop s byId ps (tot + (noi - payment ds)) of
                None \<Rightarrow> None
              | Some (ps', tot') \<Rightarrow>
                  Some (p\<lparr>loanBalance := max 0 (loanBalance p - principal ds)\<rparr> # ps', tot'))))"
  unfolding applyOperatingCashFlow_loop.simps Let_def rentIndexArg_spec
    spec_vacancy_def [symmetric] getNeighborhood_def [symmetric] spec_noi_def
  by (auto split: option.splits)

lemma applyOperatingCashFlow_loop_sums:
  "applyOperatingCashFlow_loop s byId ps tot = Some (ps', tot') \<Longrightarrow>
     (\<forall>p\<in>set ps. spec_noi s byId p \<noteq> None \<and> spec_payment p \<noteq> None)
     \<and> tot' = tot + (\<Sum>p\<leftarrow>ps. the (spec_noi s byId p) - the (spec_payment p))
     \<and> length ps' = length ps"
proof (induction ps arbitrary: tot ps')
  case Nil
  then show ?case by simp
next
  case (Cons p ps)
  from Cons.prems obtain noi ds qs where
    a: "spec_noi s byId p = Some noi"
       "annualDebtService (loanBalance p) (loanRate p) (amortYears p) (interestOnly p) = Some ds"
    and r: "applyOperatingCashFlow_loop s byId ps (tot + (noi - payment ds)) = Some (qs, tot')"
    and q: "ps' = p\<lparr>loanBalance := max 0 (loanBalance p - principal ds)\<rparr> # qs"
    unfolding applyOperatingCashFlow_loop_Cons by (auto split: option.splits)
  from Cons.IH [OF r] a q show ?case by (simp add: spec_payment_def)
qed

lemma spec_noi_rentIndexMult:
  "leaseInitialized p \<Longrightarrow> spec_noi s byId (p\<lparr>rentIndexMult := m\<rparr>) = spec_noi s byId p"
proof -
  assume a: "leaseInitialized p"
  have 1: "spec_rentIndex n (p\<lparr>rentIndexMult := m\<rparr>) = spec_rentIndex n p" for n
    using a by (simp add: spec_rentIndex_def leaseInitialized_def)
  have 2: "spec_vacancy n (p\<lparr>rentIndexMult := m\<rparr>) = spec_vacancy n p" for n
    by (simp add: spec_vacancy_def)
  show ?thesis by (simp add: spec_noi_def 1 2 split: option.splits)
qed



lemmas example_defs = st1_def propA_def propB_def propC_def hotel_def nb1_def
  RUN_DEFAULTS_def g_half_def

lemmas primitive_defs = computeNOI_def computeEffectiveRentFactor_def clamp_def valueFromNOI_def
  annualDebtService_def dscr_def Let_def

lemma example_productTypesById: "productTypesById data1 = (\<lambda>k. if k = ''hotel'' then Some hotel else None)"
  by (auto simp: productTypesById_def data1_def hotel_def)

lemma example_getNeighborhood: "getNeighborhood st1 ''dt'' = Some nb1"
  by (simp add: getNeighborhood_def example_defs)

lemma example_snapshot: "computePropertySnapshot st1 propA (productTypesById data1) =
   Some \<lparr>sn_n = nb1, sn_product = hotel, sn_noi = 950000, sn_capRate = 1 / 20, sn_value = 19000000,
         sn_ds = Some \<lparr>payment = 650000, interest = 650000, principal = 0\<rparr>\<rparr>"
  by (simp add: computePropertySnapshot_def example_productTypesById example_getNeighborhood rentIndexArg_def inPlaceRentIndex_def
      primitive_defs propA_def hotel_def nb1_def)

lemma example_computePortfolio: "computePortfolio st1 (productTypesById data1) =
  Some \<lparr>totalValue = 57000000, totalDebt = 56000000, totalNOI = 2850000,
     totalCF = 50000, equity = 1100000, portfolioDSCR = Num (57 / 56)\<rparr>"
  by (simp add: computePortfolio_def example_productTypesById rentIndexArg_def inPlaceRentIndex_def
      primitive_defs example_defs)

lemma example_applyOperatingCashFlow: "\<exists>s'. applyOperatingCashFlow st1 (productTypesById data1) = Some s' \<and> cash s' = 150000"
  by (simp add: applyOperatingCashFlow_def example_productTypesById rentIndexArg_def inPlaceRentIndex_def
      primitive_defs example_defs)

text \<open>
  Claim C9. In \<open>computePropertySnapshot\<close>, \<open>computePortfolio\<close> and
  \<open>applyOperatingCashFlow\<close> the NOI of each property is \<open>computeNOI\<close> at the rent index
  \<open>spec_rentIndex\<close>: the in-place \<open>leaseRentIndex\<close> when the lease is initialized, and the
  neighbourhood's rent index times the property's \<open>rentIndexMult\<close> only when there is no lease
  (or its rent index is not a number). With an initialized lease the NOI does not depend on
  \<open>rentIndexMult\<close>.
\<close>

theorem noi_uses_lease_rent_index:
  "map_option sn_noi (computePropertySnapshot s p byId) = spec_noi s byId p
   \<and> (computePortfolio s byId = Some pf \<longrightarrow>
        totalNOI pf = (\<Sum>q\<leftarrow>properties s. the (spec_noi s byId q))
        \<and> (\<forall>q\<in>set (properties s). spec_noi s byId q \<noteq> None))
   \<and> (applyOperatingCashFlow s byId = Some s' \<longrightarrow>
        cash s' = cash s + (\<Sum>q\<leftarrow>properties s. the (spec_noi s byId q) - the (spec_payment q))
        \<and> (\<forall>q\<in>set (properties s). spec_noi s byId q \<noteq> None))
   \<and> (lease p = Some l \<and> leaseRentIndex l = Some x \<longrightarrow>
        spec_rentIndex n p = x \<and> spec_noi s byId (p\<lparr>rentIndexMult := m\<rparr>) = spec_noi s byId p)
   \<and> (lease p = None \<or> (\<exists>l. lease p = Some l \<and> leaseRentIndex l = None) \<longrightarrow>
        spec_rentIndex n p = rentIndex n * rentIndexMult p)"
proof (intro conjI impI)
  show "map_option sn_noi (computePropertySnapshot s p byId) = spec_noi s byId p"
    by (rule snapshot_noi)
next
  assume a: "computePortfolio s byId = Some pf"
  then obtain t where t: "computePortfolio_loop s byId (properties s)
       \<lparr>t_value = 0, t_debt = 0, t_noi = 0, t_cf = 0, t_ds = 0\<rparr> = Some t" "totalNOI pf = t_noi t"
    by (auto simp: computePortfolio_def Let_def split: option.splits)
  from computePortfolio_loop_sums [OF t(1)] t(2)
  show "totalNOI pf = (\<Sum>q\<leftarrow>properties s. the (spec_noi s byId q))"
    and "\<forall>q\<in>set (properties s). spec_noi s byId q \<noteq> None" by simp_all
next
  assume a: "applyOperatingCashFlow s byId = Some s'"
  then obtain ps tot where t: "applyOperatingCashFlow_loop s byId (properties s) 0 = Some (ps, tot)"
    "cash s' = cash s + tot"
    by (auto simp: applyOperatingCashFlow_def split: option.splits)
  from applyOperatingCashFlow_loop_sums [OF t(1)] t(2)
  show "cash s' = cash s + (\<Sum>q\<leftarrow>properties s. the (spec_noi s byId q) - the (spec_payment q))"
    and "\<forall>q\<in>set (properties s). spec_noi s byId q \<noteq> None" by simp_all
next
  assume a: "lease p = Some l \<and> leaseRentIndex l = Some x"
  then have "leaseInitialized p" by (simp add: leaseInitialized_def)
  then show "spec_noi s byId (p\<lparr>rentIndexMult := m\<rparr>) = spec_noi s byId p"
    by (rule spec_noi_rentIndexMult)
  show "spec_rentIndex n p = x" using a by (simp add: spec_rentIndex_def leaseInitialized_def)
next
  assume "lease p = None \<or> (\<exists>l. lease p = Some l \<and> leaseRentIndex l = None)"
  then show "spec_rentIndex n p = rentIndex n * rentIndexMult p"
    by (auto simp: spec_rentIndex_def leaseInitialized_def)
qed

theorem noi_uses_lease_rent_index_witness:
  "(\<exists>pf. computePortfolio st1 (productTypesById data1) = Some pf
       \<and> totalNOI pf = (\<Sum>q\<leftarrow>properties st1. the (spec_noi st1 (productTypesById data1) q))
       \<and> totalNOI pf = 2850000)
   \<and> (\<exists>s'. applyOperatingCashFlow st1 (productTypesById data1) = Some s'
       \<and> cash s' = cash st1
            + (\<Sum>q\<leftarrow>properties st1. the (spec_noi st1 (productTypesById data1) q) - the (spec_payment q))
       \<and> cash s' = 150000)
   \<and> (\<exists>l. lease propB = Some l \<and> leaseRentIndex l = Some 1)
   \<and> spec_rentIndex nb1 propB = 1
   \<and> spec_noi st1 (productTypesById data1) (propB\<lparr>rentIndexMult := 2\<rparr>)
       = spec_noi st1 (productTypesById data1) propB
   \<and> lease propC = None
   \<and> spec_rentIndex nb1 propC = rentIndex nb1 * rentIndexMult propC"
proof -
  obtain s' where s': "applyOperatingCashFlow st1 (productTypesById data1) = Some s'" "cash s' = 150000"
    using example_applyOperatingCashFlow by blast
  have lB: "lease propB = Some \<lparr>yearsRemaining = 3, rollPct = 1, leaseRentIndex = Some 1\<rparr>
      \<and> leaseRentIndex \<lparr>yearsRemaining = 3, rollPct = 1, leaseRentIndex = Some 1\<rparr> = Some 1"
    by (simp add: propB_def propA_def)
  have lC: "lease propC = None \<or> (\<exists>l. lease propC = Some l \<and> leaseRentIndex l = None)"
    by (simp add: propC_def propA_def)
  note tB = noi_uses_lease_rent_index [of st1 propB "productTypesById data1" _ s'
      "\<lparr>yearsRemaining = 3, rollPct = 1, leaseRentIndex = Some 1\<rparr>" 1 nb1 2]
  note tC = noi_uses_lease_rent_index [of st1 propC "productTypesById data1" _ s' _ _ nb1]
  have 1: "totalNOI \<lparr>totalValue = 57000000, totalDebt = 56000000, totalNOI = 2850000,
       totalCF = 50000, equity = 1100000, portfolioDSCR = Num (57 / 56)\<rparr>
     = (\<Sum>q\<leftarrow>properties st1. the (spec_noi st1 (productTypesById data1) q))"
    using tB example_computePortfolio by blast
  have 2: "cash s' = cash st1
      + (\<Sum>q\<leftarrow>properties st1. the (spec_noi st1 (productTypesById data1) q) - the (spec_payment q))"
    using tB s'(1) by blast
  have 3: "spec_rentIndex nb1 propB = 1"
    "spec_noi st1 (productTypesById data1) (propB\<lparr>rentIndexMult := 2\<rparr>)
       = spec_noi st1 (productTypesById data1) propB"
    using tB lB by blast+
  have 4: "spec_rentIndex nb1 propC = rentIndex nb1 * rentIndexMult propC"
    using tC lC by blast
  have 5: "lease propC = None" by (simp add: propC_def propA_def)
  show ?thesis using example_computePortfolio 1 2 3 4 5 s' lB by auto
qed

text \<open>
  Claim C10. The effective vacancy of a property is clamped into \<open>[0.01, 0.40]\<close> and its
  effective cap rate into \<open>[0.03, 0.14]\<close>. The snapshot and the portfolio total pass that cap
  rate to \<open>valueFromNOI\<close>, which therefore divides (its branch for a cap rate that is not
  positive is not taken): the value is the NOI over the cap rate. The operating cash flow
  uses the clamped vacancy in its NOI and computes no value.
\<close>

theorem effective_rates_clamped:
  "0.01 \<le> spec_vacancy n p \<and> spec_vacancy n p \<le> 0.40
   \<and> 0.03 \<le> spec_capRate n p \<and> spec_capRate n p \<le> 0.14
   \<and> valueFromNOI noi (spec_capRate n p) = noi / spec_capRate n p
   \<and> (computePropertySnapshot s p byId = Some snap \<longrightarrow>
        computeNOI (baseNOI p) (spec_rentIndex (sn_n snap) p) (spec_vacancy (sn_n snap) p)
          (baseExpenseRatio (sn_product snap)) = Some (sn_noi snap)
        \<and> sn_capRate snap = spec_capRate (sn_n snap) p
        \<and> 0.03 \<le> sn_capRate snap
        \<and> sn_value snap = sn_noi snap / sn_capRate snap)
   \<and> (computePortfolio s byId = Some pf \<longrightarrow>
        totalValue pf = (\<Sum>q\<leftarrow>properties s. the (spec_value s byId q))
        \<and> totalNOI pf = (\<Sum>q\<leftarrow>properties s. the (spec_noi s byId q)))
   \<and> (applyOperatingCashFlow s byId = Some s' \<longrightarrow>
        cash s' = cash s + (\<Sum>q\<leftarrow>properties s. the (spec_noi s byId q) - the (spec_payment q)))"
proof (intro conjI impI)
  show "0.01 \<le> spec_vacancy n p" "spec_vacancy n p \<le> 0.40"
    using spec_vacancy_range [of n p] by simp_all
  show "0.03 \<le> spec_capRate n p" "spec_capRate n p \<le> 0.14"
    using spec_capRate_range [of n p] by simp_all
  show "valueFromNOI noi (spec_capRate n p) = noi / spec_capRate n p"
    by (rule valueFromNOI_spec)
next
  assume a: "computePropertySnapshot s p byId = Some snap"
  note f = snapshot_Some [OF a]
  show "computeNOI (baseNOI p) (spec_rentIndex (sn_n snap) p) (spec_vacancy (sn_n snap) p)
          (baseExpenseRatio (sn_product snap)) = Some (sn_noi snap)"
    using f by simp
  show "sn_capRate snap = spec_capRate (sn_n snap) p" using f by simp
  show "0.03 \<le> sn_capRate snap" using f spec_capRate_range [of "sn_n snap" p] by simp
  show "sn_value snap = sn_noi snap / sn_capRate snap" using f by simp
next
  assume a: "computePortfolio s byId = Some pf"
  then obtain t where t: "computePortfolio_loop s byId (properties s)
       \<lparr>t_value = 0, t_debt = 0, t_noi = 0, t_cf = 0, t_ds = 0\<rparr> = Some t"
       "totalNOI pf = t_noi t" "totalValue pf = t_value t"
    by (auto simp: computePortfolio_def Let_def split: option.splits)
  from computePortfolio_loop_sums [OF t(1)] t(2,3)
  show "totalValue pf = (\<Sum>q\<leftarrow>properties s. the (spec_value s byId q))"
    and "totalNOI pf = (\<Sum>q\<leftarrow>properties s. the (spec_noi s byId q))" by simp_all
next
  assume a: "applyOperatingCashFlow s byId = Some s'"
  then obtain ps tot where t: "applyOperatingCashFlow_loop s byId (properties s) 0 = Some (ps, tot)"
    "cash s' = cash s + tot"
    by (auto simp: applyOperatingCashFlow_def split: option.splits)
  from applyOperatingCashFlow_loop_sums [OF t(1)] t(2)
  show "cash s' = cash s + (\<Sum>q\<leftarrow>properties s. the (spec_noi s byId q) - the (spec_payment q))"
    by simp
qed

theorem effective_rates_clamped_witness:
  "computePropertySnapshot st1 propA (productTypesById data1) = Some snapA1
   \<and> sn_capRate snapA1 = spec_capRate (sn_n snapA1) propA
   \<and> 0.03 \<le> sn_capRate snapA1
   \<and> sn_value snapA1 = sn_noi snapA1 / sn_capRate snapA1
   \<and> sn_value snapA1 = 19000000
   \<and> (\<exists>pf. computePortfolio st1 (productTypesById data1) = Some pf
         \<and> totalValue pf = (\<Sum>q\<leftarrow>properties st1. the (spec_value st1 (productTypesById data1) q))
         \<and> totalValue pf = 57000000)
   \<and> (\<exists>s'. applyOperatingCashFlow st1 (productTypesById data1) = Some s'
         \<and> cash s' = cash st1
            + (\<Sum>q\<leftarrow>properties st1. the (spec_noi st1 (productTypesById data1) q) - the (spec_payment q)))"
proof -
  obtain s' where s': "applyOperatingCashFlow st1 (productTypesById data1) = Some s'"
    using example_applyOperatingCashFlow by blast
  have sn: "computePropertySnapshot st1 propA (productTypesById data1) = Some snapA1"
    using example_snapshot by (simp add: snapA1_def)
  note t = effective_rates_clamped [of nb1 propA _ st1 "productTypesById data1" snapA1 _ s']
  have 1: "sn_capRate snapA1 = spec_capRate (sn_n snapA1) propA \<and> 0.03 \<le> sn_capRate snapA1
    \<and> sn_value snapA1 = sn_noi snapA1 / sn_capRate snapA1"
    using t sn by blast
  have 2: "totalValue \<lparr>totalValue = 57000000, totalDebt = 56000000, totalNOI = 2850000,
       totalCF = 50000, equity = 1100000, portfolioDSCR = Num (57 / 56)\<rparr>
     = (\<Sum>q\<leftarrow>properties st1. the (spec_value st1 (productTypesById data1) q))"
    using t example_computePortfolio by blast
  have 3: "cash s' = cash st1
      + (\<Sum>q\<leftarrow>properties st1. the (spec_noi st1 (productTypesById data1) q) - the (spec_payment q))"
    using t s' by blast
  have 4: "sn_value snapA1 = 19000000" by (simp add: snapA1_def)
  show ?thesis using sn 1 2 3 4 example_computePortfolio s' by auto
qed

section \<open>Insufficient funds\<close>

lemma startBuild_no_cash:
  assumes "find (\<lambda>x. n_id x = nid) (neighborhoods s) = Some n" "pt \<in> set (zoning n)"
    "cash s < buildCost n (shd g) * 0.25"
  shows "startBuild d s nid pt g = Some (BuildNoCash (buildCost n (shd g)), s, stl g)"
  using assms by (simp add: startBuild_def draw_def Let_def)

lemma renovateProperty_no_cash:
  assumes "findIndex (\<lambda>x. p_id x = pid) (properties s) = Some idx"
    "computePropertySnapshot s (properties s ! idx) (productTypesById d) = Some snap"
    "level = (case renoLevel (properties s ! idx) of None \<Rightarrow> 0 | Some l \<Rightarrow> l)"
    "level < 3" "cash s < renoCost (sn_value snap) (level + 1)"
  shows "renovateProperty d s pid = Some (RenoNoCash (renoCost (sn_value snap) (level + 1)), s)"
  using assms by (simp add: renovateProperty_def Let_def)

lemma renovateProperty_maxed:
  assumes "findIndex (\<lambda>x. p_id x = pid) (properties s) = Some idx"
    "(case renoLevel (properties s ! idx) of None \<Rightarrow> 0 | Some l \<Rightarrow> l) \<ge> 3"
  shows "renovateProperty d s pid = Some (RenoMaxed, s)"
  using assms by (simp add: renovateProperty_def Let_def)

lemma attemptRefi_fails:
  assumes "computePropertySnapshot s p byId = Some snap" "newLoanFor snap p < loanBalance p"
    "cash s < loanBalance p - newLoanFor snap p"
  shows "attemptRefi s p byId g = Some (False, s, p, stl (stl g))"
  using assms by (simp add: attemptRefi_def draw_def makeMaturityYears_def Let_def)

text \<open>
  Claim C8. When the cash test of an operation fails, the operation returns the state it
  was given and reports the outcome: \<open>startBuild\<close> with cash below 25% of the drawn cost,
  \<open>renovateProperty\<close> with cash below the renovation cost or with the renovation level
  already 3, and \<open>attemptRefi\<close> with a new loan below the balance and cash below the
  shortfall (it returns \<open>false\<close> and leaves the property as it was). The generator has
  advanced by the draws made before the test.
\<close>

theorem insufficient_funds_noop:
  "(find (\<lambda>x. n_id x = nid) (neighborhoods s) = Some n \<and> pt \<in> set (zoning n)
      \<and> cash s < buildCost n (shd g) * 0.25
      \<longrightarrow> startBuild d s nid pt g = Some (BuildNoCash (buildCost n (shd g)), s, stl g))
   \<and> (findIndex (\<lambda>x. p_id x = pid) (properties s) = Some idx
      \<and> computePropertySnapshot s (properties s ! idx) (productTypesById d) = Some snap
      \<and> level = (case renoLevel (properties s ! idx) of None \<Rightarrow> 0 | Some l \<Rightarrow> l)
      \<and> level < 3 \<and> cash s < renoCost (sn_value snap) (level + 1)
      \<longrightarrow> renovateProperty d s pid = Some (RenoNoCash (renoCost (sn_value snap) (level + 1)), s))
   \<and> (findIndex (\<lambda>x. p_id x = pid) (properties s) = Some idx
      \<and> (case renoLevel (properties s ! idx) of None \<Rightarrow> 0 | Some l \<Rightarrow> l) \<ge> 3
      \<longrightarrow> renovateProperty d s pid = Some (RenoMaxed, s))
   \<and> (computePropertySnapshot s p byId = Some snap' \<and> newLoanFor snap' p < loanBalance p
      \<and> cash s < loanBalance p - newLoanFor snap' p
      \<longrightarrow> attemptRefi s p byId g = Some (False, s, p, stl (stl g)))"
  using startBuild_no_cash [of nid s n pt g d] renovateProperty_no_cash [of pid s idx d snap level]
    renovateProperty_maxed [of pid s idx d] attemptRefi_fails [of s p byId snap' g]
  by blast

lemma example_buildCost: "buildCost nb1 (1 / 2) = 15863000"
  by (simp add: buildCost_def nb1_def round_def Let_def)

theorem insufficient_funds_noop_witness:
  "cash st1 < buildCost nb1 (shd g_half) * 0.25
   \<and> startBuild data1 st1 ''dt'' ''hotel'' g_half = Some (BuildNoCash 15863000, st1, stl g_half)
   \<and> cash st1 < renoCost (sn_value snapA1) (0 + 1)
   \<and> renovateProperty data1 st1 ''PA'' = Some (RenoNoCash 570000, st1)
   \<and> renovateProperty data1 (st1\<lparr>properties := [propA\<lparr>renoLevel := Some 3\<rparr>]\<rparr>) ''PA''
        = Some (RenoMaxed, st1\<lparr>properties := [propA\<lparr>renoLevel := Some 3\<rparr>]\<rparr>)
   \<and> newLoanFor snapA1 propA < loanBalance propA
   \<and> cash st1 < loanBalance propA - newLoanFor snapA1 propA
   \<and> attemptRefi st1 propA (productTypesById data1) g_half = Some (False, st1, propA, stl (stl g_half))"
proof -
  have g: "shd g_half = 1 / 2" by (simp add: g_half_def)
  have b1: "find (\<lambda>x. n_id x = ''dt'') (neighborhoods st1) = Some nb1" "''hotel'' \<in> set (zoning nb1)"
    by (simp_all add: example_defs)
  have b2: "cash st1 < buildCost nb1 (shd g_half) * 0.25"
    by (simp add: g example_buildCost) (simp add: st1_def)
  have r1: "findIndex (\<lambda>x. p_id x = ''PA'') (properties st1) = Some 0" "properties st1 ! 0 = propA"
    by (simp_all add: example_defs)
  have sn: "computePropertySnapshot st1 propA (productTypesById data1) = Some snapA1"
    using example_snapshot by (simp add: snapA1_def)
  have r2: "(0::int) = (case renoLevel (properties st1 ! 0) of None \<Rightarrow> 0 | Some l \<Rightarrow> l)" "(0::int) < 3"
    by (simp_all add: example_defs)
  have c: "renoCost (sn_value snapA1) 1 = 570000"
    by (simp add: renoCost_def snapA1_def clamp_def)
  have r3: "cash st1 < renoCost (sn_value snapA1) (0 + 1)"
    by (simp add: c) (simp add: st1_def)
  let ?s3 = "st1\<lparr>properties := [propA\<lparr>renoLevel := Some 3\<rparr>]\<rparr>"
  have m: "findIndex (\<lambda>x. p_id x = ''PA'') (properties ?s3) = Some 0"
    "(case renoLevel (properties ?s3 ! 0) of None \<Rightarrow> 0 | Some l \<Rightarrow> l) \<ge> 3"
    by (simp_all add: example_defs)
  have nl: "newLoanFor snapA1 propA = 12350000"
    by (simp add: newLoanFor_def snapA1_def propA_def)
  have f: "newLoanFor snapA1 propA < loanBalance propA"
    "cash st1 < loanBalance propA - newLoanFor snapA1 propA"
    unfolding nl by (simp_all add: example_defs)
  have 1: "startBuild data1 st1 ''dt'' ''hotel'' g_half = Some (BuildNoCash (buildCost nb1 (shd g_half)), st1, stl g_half)"
    using insufficient_funds_noop [of "''dt''" st1 nb1 "''hotel''" g_half data1] b1 b2 by blast
  have 2: "renovateProperty data1 st1 ''PA'' = Some (RenoNoCash (renoCost (sn_value snapA1) (0 + 1)), st1)"
    using insufficient_funds_noop [of _ st1 _ _ _ data1 "''PA''" 0 snapA1 0] r1 r2 r3 sn
    by (simp only:)
  have 3: "renovateProperty data1 ?s3 ''PA'' = Some (RenoMaxed, ?s3)"
    using insufficient_funds_noop [of _ ?s3 _ _ _ data1 "''PA''" 0] m by blast
  have 4: "attemptRefi st1 propA (productTypesById data1) g_half = Some (False, st1, propA, stl (stl g_half))"
    using insufficient_funds_noop [of _ st1 _ _ g_half _ _ _ _ _ propA "productTypesById data1" snapA1] sn f
    by blast
  show ?thesis using 1 2 3 4 b2 r3 f by (simp add: g example_buildCost c)
qed

section \<open>The yearly lease update\<close>











section \<open>The maturity pass\<close>

lemma spec_value_nonneg: "spec_value s byId p = Some v \<Longrightarrow> 0 \<le> v"
  by (auto simp: spec_value_def spec_noi_def spec_capRate_pos split: option.splits
      dest!: computeNOI_nonneg intro!: divide_nonneg_pos)

lemma same_env_value: "same_env s t \<Longrightarrow> spec_value s byId p = spec_value t byId p"
  by (simp add: same_env_def spec_value_def spec_noi_def getNeighborhood_def)

lemma same_env_pass:
  "same_env s t \<Longrightarrow> spec_maturity_pass d s c j ps g = spec_maturity_pass d t c j ps g"
proof (induction ps arbitrary: c j g)
  case Nil
  then show ?case by simp
next
  case (Cons p ps)
  have 1: "spec_matured s p = spec_matured t p" "year s = year t"
    using Cons.prems by (auto simp: same_env_def spec_matured_def split: option.splits)
  have 2: "spec_refinanced s p x g = spec_refinanced t p x g" for x
    using Cons.prems by (simp add: same_env_def spec_refinanced_def)
  show ?case
    by (simp add: 1 2 same_env_value [OF Cons.prems] Cons.IH [OF Cons.prems] Let_def
        split: option.splits)
qed

lemma attemptRefi_None:
  "spec_value s byId p = None \<Longrightarrow> attemptRefi s p byId g = None"
  using snapshot_value [of s p byId] by (simp add: attemptRefi_def split: option.splits)

lemma attemptRefi_spec:
  assumes "spec_value s byId p = Some v" "0 \<le> targetLTV p"
  shows "attemptRefi s p byId g =
    (if v * targetLTV p \<ge> loanBalance p then
       Some (True, s\<lparr>cash := cash s + (v * targetLTV p - loanBalance p)\<rparr>,
             spec_refinanced s p (v * targetLTV p) g, stl (stl g))
     else if cash s \<ge> loanBalance p - v * targetLTV p then
       Some (True, s\<lparr>cash := cash s - (loanBalance p - v * targetLTV p)\<rparr>,
             spec_refinanced s p (v * targetLTV p) g, stl (stl g))
     else Some (False, s, p, stl (stl g)))"
proof -
  from assms(1) snapshot_value [of s p byId] obtain snap where
    sn: "computePropertySnapshot s p byId = Some snap" "sn_value snap = v"
    by (cases "computePropertySnapshot s p byId") auto
  have "0 \<le> v * targetLTV p"
    using spec_value_nonneg [OF assms(1)] assms(2) by simp
  then have nl: "newLoanFor snap p = v * targetLTV p"
    by (simp add: newLoanFor_def targetLTV_def sn(2))
  show ?thesis
    by (simp add: attemptRefi_def sn(1) nl draw_def makeMaturityYears_def spec_refinanced_def Let_def)
qed

lemma findIndex_append:
  "i \<notin> set (map p_id pre) \<Longrightarrow> p_id p = i \<Longrightarrow>
     findIndex (\<lambda>x. p_id x = i) (pre @ p # post) = Some (length pre)"
  by (induction pre) auto

lemma sellProperty_at:
  assumes "p_id p \<notin> set (map p_id pre)" "properties s = pre @ p # post"
    "spec_value s (productTypesById d) p = Some v"
  shows "sellProperty d s (p_id p) =
     Some (s\<lparr>cash := cash s + spec_sale_net p v, properties := pre @ post,
             journal := journal s @ [SELL (year s) (p_id p) v (spec_sale_net p v)]\<rparr>)"
proof -
  from assms(3) snapshot_value [of s p "productTypesById d"] obtain snap where
    sn: "computePropertySnapshot s p (productTypesById d) = Some snap" "sn_value snap = v"
    by (cases "computePropertySnapshot s p (productTypesById d)") auto
  have fi: "findIndex (\<lambda>x. p_id x = p_id p) (properties s) = Some (length pre)"
    unfolding assms(2) using assms(1) by (intro findIndex_append) simp_all
  have nth: "properties s ! length pre = p" by (simp add: assms(2))
  have td: "take (length pre) (properties s) @ drop (Suc (length pre)) (properties s) = pre @ post"
    by (simp add: assms(2))
  show ?thesis
    by (simp add: sellProperty_def fi nth td sn spec_sale_net_def Let_def)
qed

lemma matured_spec: "maturityYear p \<noteq> Some 0 \<Longrightarrow> matured s p = spec_matured s p"
  by (auto simp: matured_def spec_matured_def split: option.splits)

lemma handleMaturities_loop_spec:
  assumes "distinct (map p_id (pre @ post))"
    "list_all (\<lambda>p. maturityYear p \<noteq> Some 0 \<and> 0 \<le> targetLTV p) post"
  shows "handleMaturities_loop d s pre post g =
     (case spec_maturity_pass d s (cash s) (journal s) post g of
        None \<Rightarrow> None
      | Some (c, j, kept, g') \<Rightarrow> Some (s\<lparr>cash := c, journal := j, properties := pre @ kept\<rparr>, g'))"
  using assms
proof (induction post arbitrary: s pre g)
  case Nil
  show ?case by simp
next
  case (Cons p post)
  let ?byId = "productTypesById d"
  let ?s0 = "s\<lparr>properties := pre @ p # post\<rparr>"
  have wf: "maturityYear p \<noteq> Some 0" "0 \<le> targetLTV p"
    "list_all (\<lambda>p. maturityYear p \<noteq> Some 0 \<and> 0 \<le> targetLTV p) post"
    using Cons.prems(2) by simp_all
  have notin: "p_id p \<notin> set (map p_id pre)" using Cons.prems(1) by auto
  have e0: "same_env ?s0 s" by (simp add: same_env_def)
  show ?case
  proof (cases "spec_matured s p")
    case False
    have d: "distinct (map p_id ((pre @ [p]) @ post))" using Cons.prems(1) by simp
    show ?thesis
      using False matured_spec [OF wf(1), of s] Cons.IH [OF d wf(3), of s g]
      by (auto split: option.splits)
  next
    case True
    then have m: "matured s p" using matured_spec [OF wf(1), of s] by simp
    show ?thesis
    proof (cases "spec_value s ?byId p")
      case None
      then have "attemptRefi ?s0 p ?byId g = None"
        using same_env_value [OF e0, of ?byId p] by (intro attemptRefi_None) simp
      then show ?thesis using m True None by simp
    next
      case (Some v)
      let ?nl = "v * targetLTV p"
      let ?g2 = "stl (stl g)"
      have v0: "spec_value ?s0 ?byId p = Some v"
        using Some same_env_value [OF e0, of ?byId p] by simp
      note ar = attemptRefi_spec [OF v0 wf(2), of g]
      have rf: "spec_refinanced ?s0 p ?nl g = spec_refinanced s p ?nl g"
        by (simp add: spec_refinanced_def)
      consider (out) "?nl \<ge> loanBalance p"
        | (tight) "\<not> ?nl \<ge> loanBalance p" "cash s \<ge> loanBalance p - ?nl"
        | (fail) "\<not> ?nl \<ge> loanBalance p" "\<not> cash s \<ge> loanBalance p - ?nl"
        by blast
      then show ?thesis
      proof cases
        case out
        let ?s1 = "?s0\<lparr>cash := cash ?s0 + (?nl - loanBalance p)\<rparr>"
        let ?p1 = "spec_refinanced s p ?nl g"
        have d: "distinct (map p_id ((pre @ [?p1]) @ post))"
          using Cons.prems(1) by (simp add: spec_refinanced_def)
        have e1: "same_env ?s1 s" by (simp add: same_env_def)
        have step: "handleMaturities_loop d s pre (p # post) g
              = handleMaturities_loop d ?s1 (pre @ [?p1]) post ?g2"
          using m ar out by (simp add: rf)
        show ?thesis
          unfolding step Cons.IH [OF d wf(3), of ?s1 ?g2] same_env_pass [OF e1]
          using True Some out by (auto simp: Let_def split: option.splits)
      next
        case tight
        let ?s1 = "?s0\<lparr>cash := cash ?s0 - (loanBalance p - ?nl)\<rparr>"
        let ?p1 = "spec_refinanced s p ?nl g"
        have d: "distinct (map p_id ((pre @ [?p1]) @ post))"
          using Cons.prems(1) by (simp add: spec_refinanced_def)
        have e1: "same_env ?s1 s" by (simp add: same_env_def)
        have step: "handleMaturities_loop d s pre (p # post) g
              = handleMaturities_loop d ?s1 (pre @ [?p1]) post ?g2"
          using m ar tight by (simp add: rf)
        show ?thesis
          unfolding step Cons.IH [OF d wf(3), of ?s1 ?g2] same_env_pass [OF e1]
          using True Some tight by (auto simp: Let_def split: option.splits)
      next
        case fail
        let ?c1 = "cash s + spec_sale_net p v"
        let ?s2 = "?s0\<lparr>cash := ?c1, properties := pre @ post,
                       journal := journal s @ [SELL (year s) (p_id p) v (spec_sale_net p v)]\<rparr>"
        let ?s3 = "if cash ?s2 < 0 then ?s2\<lparr>cash := 0\<rparr> else ?s2"
        have sell: "sellProperty d ?s0 (p_id p) = Some ?s2"
          using sellProperty_at [OF notin _ v0, of post] by simp
        have tk: "take (length pre) (properties ?s3) = pre" by simp
        have d: "distinct (map p_id (pre @ post))" using Cons.prems(1) by simp
        have e3: "same_env ?s3 s" by (simp add: same_env_def)
        have step: "handleMaturities_loop d s pre (p # post) g
              = handleMaturities_loop d ?s3 pre post ?g2"
          using m ar fail sell tk by (simp add: Let_def)
        show ?thesis
          unfolding step Cons.IH [OF d wf(3), of ?s3 ?g2] same_env_pass [OF e3]
          using True Some fail by (auto simp: Let_def split: option.splits)
      qed
    qed
  qed
qed

lemma spec_pass_no_matured:
  "filter (spec_matured s) ps = [] \<Longrightarrow> spec_maturity_pass d s c j ps g = Some (c, j, ps, g)"
  by (induction ps) (auto split: if_splits)

text \<open>
  On a run state with distinct property ids, no maturity year 0 and no negative target LTV,
  \<open>handleMaturities\<close> is the maturity pass of the specification: every property with
  \<open>maturityYear <= year\<close> is refinanced at \<open>valuation * target LTV\<close>; a new loan that
  covers the balance credits the surplus to cash and replaces the loan; otherwise, when the
  cash covers the shortfall, the shortfall is deducted and the loan is replaced; otherwise
  the property is sold (net = 98% of the valuation less the balance) and removed, and cash
  that would be negative is set to 0. The properties are processed in order, each one
  with the cash left by the ones before it.
\<close>

lemma maturity_pass_refines:
  assumes "maturities_wf s"
  shows "handleMaturities d s g = spec_handleMaturities d s g"
proof -
  have d: "distinct (map p_id ([] @ properties s))"
    and wf: "list_all (\<lambda>p. maturityYear p \<noteq> Some 0 \<and> 0 \<le> targetLTV p) (properties s)"
    using assms by (simp_all add: maturities_wf_def)
  have eq: "filter (matured s) (properties s) = filter (spec_matured s) (properties s)"
    using wf by (intro filter_cong) (auto simp: list_all_iff matured_spec)
  show ?thesis
  proof (cases "filter (matured s) (properties s) = []")
    case True
    then show ?thesis
      using spec_pass_no_matured [of s "properties s" d "cash s" "journal s" g] eq
      by (simp add: handleMaturities_def spec_handleMaturities_def)
  next
    case False
    then show ?thesis
      using handleMaturities_loop_spec [OF d wf, of d s g]
      by (auto simp: handleMaturities_def spec_handleMaturities_def split: option.splits)
  qed
qed


lemma example_handleMaturities: "handleMaturities data1 st1 g_half = Some (after1, g_half)"
  by (simp add: handleMaturities_def matured_def attemptRefi_def sellProperty_def newLoanFor_def
      computePropertySnapshot_def getNeighborhood_def rentIndexArg_def inPlaceRentIndex_def
      makeMaturityYears_def draw_def example_productTypesById after1_def primitive_defs example_defs)

text \<open>
  In the example the first property cannot be refinanced (shortfall 650,000, cash 100,000)
  and is sold for net 5,620,000; the proceeds fund the same shortfall of the second property,
  which is refinanced; the sale of the third leaves the cash negative, and it is set to 0.
\<close>

lemma maturity_pass_refines_example:
  "maturities_wf st1
   \<and> handleMaturities data1 st1 g_half = spec_handleMaturities data1 st1 g_half
   \<and> handleMaturities data1 st1 g_half = Some (after1, g_half)
   \<and> cash after1 = 0 \<and> map p_id (properties after1) = [''PB'']
   \<and> map loanBalance (properties after1) = [12350000]"
proof -
  have wf: "maturities_wf st1"
    by (simp add: maturities_wf_def targetLTV_def example_defs)
  have "handleMaturities data1 st1 g_half = spec_handleMaturities data1 st1 g_half"
    using maturity_pass_refines [OF wf] .
  moreover have "cash after1 = 0" "map p_id (properties after1) = [''PB'']"
    "map loanBalance (properties after1) = [12350000]"
    by (simp_all add: after1_def example_defs)
  ultimately show ?thesis using wf example_handleMaturities by simp
qed

lemmas twin_defs = twins_def twinA_def twinB_def refinancedA_def propA_def hotel_def nb1_def

lemma example_twins_code: "handleMaturities data1 twins g_half =
   Some (twins\<lparr>cash := 6720000, properties := [twinB],
               journal := [SELL 10 ''B7-500000'' 19000000 6270000]\<rparr>, g_half)"
  by (simp add: handleMaturities_def matured_def attemptRefi_def sellProperty_def newLoanFor_def
      computePropertySnapshot_def getNeighborhood_def rentIndexArg_def inPlaceRentIndex_def
      makeMaturityYears_def draw_def example_productTypesById primitive_defs twin_defs g_half_def RUN_DEFAULTS_def)

lemma example_twins_spec: "spec_handleMaturities data1 twins g_half =
   Some (twins\<lparr>cash := 0, properties := [refinancedA],
               journal := [SELL 10 ''B7-500000'' 19000000 (- 11380000)]\<rparr>, g_half)"
  by (simp add: spec_handleMaturities_def spec_matured_def spec_value_def spec_noi_def spec_sale_net_def spec_refinanced_def targetLTV_def
      spec_capRate_def spec_vacancy_def spec_rentIndex_def leaseInitialized_def
      getNeighborhood_def 
      makeMaturityYears_def draw_def example_productTypesById primitive_defs twin_defs g_half_def RUN_DEFAULTS_def)

lemma example_twins_refi: "attemptRefi (twins\<lparr>cash := 450000, properties := [refinancedA, twinB]\<rparr>) twinB (productTypesById data1) g_half
   = Some (False, twins\<lparr>cash := 450000, properties := [refinancedA, twinB]\<rparr>, twinB, g_half)"
  by (simp add: attemptRefi_def  newLoanFor_def
      computePropertySnapshot_def getNeighborhood_def rentIndexArg_def inPlaceRentIndex_def
      makeMaturityYears_def draw_def example_productTypesById primitive_defs twin_defs g_half_def RUN_DEFAULTS_def)

text \<open>
  The forced sale looks the property up by its id again (\<open>sellProperty(p.id)\<close>) although the
  loop holds the property itself. Property ids are not unique: \<open>startBuild\<close> names a build
  after the year and one draw, so two builds of one year whose draws agree share their id.
\<close>

lemma startBuild_id:
  assumes "startBuild d s n pt g = Some (BuildStarted c e, s', g')"
  shows "map p_id (properties s') =
     map p_id (properties s) @ [''B'' @ show_int (year s) @ ''-'' @ show_int \<lfloor>shd (stl g) * 1000000\<rfloor>]"
  using assms
  by (auto simp: startBuild_def Let_def split_beta draw_def split: option.splits if_splits)

text \<open>
  Claim C2 fails on the code where two matured properties share an id. In the small run the
  first twin is refinanced with a cash-out of 350,000; the refinance of the second fails,
  and the sale that follows removes the first property with that id, the refinanced twin:
  the property whose refinance failed stays in the collection with its matured loan of
  30,000,000 and the cash becomes 6,720,000. By the claim the second twin is sold and
  removed, the refinanced twin stays and the cash is set to 0.
\<close>

theorem maturity_pass_duplicate_ids:
  "map p_id (properties twins) = [''B7-500000'', ''B7-500000'']
   \<and> matured twins twinA \<and> matured twins twinB
   \<and> attemptRefi (twins\<lparr>cash := 450000, properties := [refinancedA, twinB]\<rparr>) twinB
         (productTypesById data1) g_half
       = Some (False, twins\<lparr>cash := 450000, properties := [refinancedA, twinB]\<rparr>, twinB, g_half)
   \<and> handleMaturities data1 twins g_half =
       Some (twins\<lparr>cash := 6720000, properties := [twinB],
                   journal := [SELL 10 ''B7-500000'' 19000000 6270000]\<rparr>, g_half)
   \<and> spec_handleMaturities data1 twins g_half =
       Some (twins\<lparr>cash := 0, properties := [refinancedA],
                   journal := [SELL 10 ''B7-500000'' 19000000 (- 11380000)]\<rparr>, g_half)
   \<and> handleMaturities data1 twins g_half \<noteq> spec_handleMaturities data1 twins g_half"
proof -
  have m: "map p_id (properties twins) = [''B7-500000'', ''B7-500000'']"
    "matured twins twinA" "matured twins twinB"
    by (simp_all add: matured_def twin_defs RUN_DEFAULTS_def)
  have ne: "twins\<lparr>cash := 6720000, properties := [twinB],
                   journal := [SELL 10 ''B7-500000'' 19000000 6270000]\<rparr>
         \<noteq> twins\<lparr>cash := 0, properties := [refinancedA],
                   journal := [SELL 10 ''B7-500000'' 19000000 (- 11380000)]\<rparr>"
  proof
    assume "twins\<lparr>cash := 6720000, properties := [twinB],
                   journal := [SELL 10 ''B7-500000'' 19000000 6270000]\<rparr>
         = twins\<lparr>cash := 0, properties := [refinancedA],
                   journal := [SELL 10 ''B7-500000'' 19000000 (- 11380000)]\<rparr>"
    then have "cash (twins\<lparr>cash := 6720000, properties := [twinB],
                   journal := [SELL 10 ''B7-500000'' 19000000 6270000]\<rparr>)
         = cash (twins\<lparr>cash := 0, properties := [refinancedA],
                   journal := [SELL 10 ''B7-500000'' 19000000 (- 11380000)]\<rparr>)"
      by (rule arg_cong)
    then show False by simp
  qed
  show ?thesis using m example_twins_refi example_twins_code example_twins_spec ne by simp
qed

section \<open>Seeded runs\<close>


lemma makeRng_unseeded:
  "makeRng lib None mathRandom = mulberry32 lib (nat (\<lfloor>mathRandom * 1000000000\<rfloor> mod 2 ^ 32))"
  by (simp add: makeRng_def)


lemma example_show_int: "show_int 500000 = ''500000''"
  by (simp add: show_int_def show_nat.simps digit_def)

lemma example_show_digits: "show_int 1 = ''1''" "show_int 2 = ''2''" "show_nat 0 = ''0''" "show_nat 1 = ''1''" "show_nat 2 = ''2''" "show_nat (Suc 0) = ''1''"
  by (simp_all add: show_int_def show_nat.simps digit_def)

lemma example_makeListing:
  "makeListing data1 (RUN_DEFAULTS\<lparr>neighborhoods := [nb1], cash := c\<rparr>) i g_half =
     Some (Some (listing0 i), g_half)"
  by (simp add: makeListing_def nth_opt_def draw_def clamp_def round_def example_show_int example_show_digits
      data1_def example_defs listing0_def Let_def)

lemma example_initRun: "initRun lib1 data1 settings1 True sv r = Some (run0, g_half)"
proof -
  have n: "map (\<lambda>n. n\<lparr>demand := baseDemand n\<rparr>) (d_neighborhoods data1) = [nb1]"
    by (simp add: data1_def nb1_def)
  have g: "makeRng lib1 (Some ''abc'') r = g_half"
    by (simp add: makeRng_def lib1_def g_half_def)
  show ?thesis
    by (simp add: initRun_def newRun_def n g settings1_def generateListings_def example_makeListing run0_def Let_def)
qed

lemma example_startBuild:
  "\<exists>s. startBuild data1 run0 ''dt'' ''hotel'' g_half = Some (BuildStarted 15863000 3965750, s, g_half)
      \<and> cash s = 534250 \<and> map p_id (properties s) = [''B1-500000'']"
  by (simp add: startBuild_def buildCost_def round_def draw_def clamp_def example_show_int example_show_digits
      data1_def run0_def example_defs Let_def)


lemma clamp_if: "clamp x lo hi = (if hi \<le> x then max lo hi else if x \<le> lo then lo else x)"
  by (auto simp: clamp_def max_def min_def)

lemma example_updateMarketYear:
  "updateMarketYear \<lparr>baseRate = 0.045, spread = 0.020, liquidity = 0.70\<rparr> g_half
     = (\<lparr>baseRate = 23 / 500, spread = 197 / 10000, liquidity = 7 / 10\<rparr>, g_half)"
  by (simp add: updateMarketYear_def draw_def g_half_def clamp_if Let_def)

lemma updateNeighborhoodYear_steps:
  assumes "D = clamp (demand n + (baseDemand n - demand n) * 0.25 + (shd g - 0.5) * 0.04) 0.2 1.2"
    and "TV = clamp (0.14 - (D - 0.6) * 0.12) 0.03 0.28"
    and "V = clamp (vacancy n + (TV - vacancy n) * 0.35 + (shd (stl g) - 0.5) * 0.02) 0.01 0.35"
    and "TB = clamp ((0.10 - V) * 0.25) (- 0.03) 0.04"
    and "RG = clamp (0.02 + TB + (shd (stl (stl g)) - 0.5) * 0.02) (- 0.06) 0.10"
    and "R = clamp (rentIndex n * (1 + RG)) 0.6 1.8"
    and "TC = clamp (capRate n * 0.5
            + (0.045 + (baseRate m * 0.55 + spread m * 0.65) - (liquidity m - 0.6) * 0.02) * 0.5) 0.03 0.12"
    and "C = clamp (capRate n + (TC - capRate n) * 0.35 + (shd (stl (stl (stl g))) - 0.5) * 0.004) 0.03 0.12"
  shows "updateNeighborhoodYear n m g =
     (n\<lparr>demand := D, vacancy := V, rentIndex := R, capRate := C\<rparr>, RG, stl (stl (stl (stl g))))"
  unfolding assms by (simp add: updateNeighborhoodYear_def draw_def Let_def)

lemma example_updateNeighborhoodYear:
  "updateNeighborhoodYear nb1 \<lparr>baseRate = 23 / 500, spread = 197 / 10000, liquidity = 7 / 10\<rparr> g_half
     = (year1_nb, 1069 / 40000, g_half)"
proof -
  have g: "stl (stl (stl (stl g_half))) = g_half" by (simp add: g_half_def)
  have "updateNeighborhoodYear nb1 \<lparr>baseRate = 23 / 500, spread = 197 / 10000, liquidity = 7 / 10\<rparr> g_half
     = (nb1\<lparr>demand := 4 / 5, vacancy := 731 / 10000, rentIndex := 41069 / 40000,
            capRate := 443547 / 8000000\<rparr>, 1069 / 40000, stl (stl (stl (stl g_half))))"
    by (rule updateNeighborhoodYear_steps [where TV = "29 / 250" and TB = "269 / 40000"
          and TC = "26221 / 400000"])
      (simp_all add: clamp_def nb1_def g_half_def)
  then show ?thesis by (simp only: g year1_nb_def)
qed

lemma example_generateListings:
  assumes "neighborhoods s = [n]" "''hotel'' \<in> set (zoning n)"
  shows "\<exists>ls. generateListings data1 s g_half = Some (s\<lparr>listings := ls\<rparr>, g_half) \<and> length ls = 3"
proof -
  have "\<exists>l. makeListing data1 s i g_half = Some (Some l, g_half)" for i
    using assms
    by (simp add: makeListing_def nth_opt_def draw_def data1_def hotel_def g_half_def Let_def)
  then obtain l where l: "\<And>i. makeListing data1 s i g_half = Some (Some (l i), g_half)"
    by metis
  show ?thesis
    by (intro exI [of _ "[l 0, l 1, l 2]"]) (simp add: generateListings_def l)
qed

lemma example_nextYear:
  "\<exists>ls. nextYear data1 run0 g_half =
       Some (run0\<lparr>year := 2,
                  market := \<lparr>baseRate = 23 / 500, spread = 197 / 10000, liquidity = 7 / 10\<rparr>,
                  neighborhoods := [year1_nb],
                  listings := ls\<rparr>, g_half)
     \<and> length ls = 3"
proof -
  let ?M = "\<lparr>baseRate = 23 / 500, spread = 197 / 10000, liquidity = 7 / 10\<rparr>"
  let ?n = "year1_nb"
  let ?s = "run0\<lparr>year := 2, market := ?M, neighborhoods := [?n]\<rparr>"
  have pe: "pickEvent (events data1) g_half = (None, g_half)"
    by (simp add: pickEvent_def draw_def nth_opt_def data1_def g_half_def)
  have m: "updateMarketYear (market run0) g_half = (?M, g_half)"
    using example_updateMarketYear by (simp add: run0_def RUN_DEFAULTS_def)
  have ns: "neighborhoods run0 = [nb1]" "properties run0 = []" "year run0 = 1"
    by (simp_all add: run0_def RUN_DEFAULTS_def)
  have eq: "?s\<lparr>properties := []\<rparr> = ?s"
    by (simp add: run0_def RUN_DEFAULTS_def)
  have st: "nextYear data1 run0 g_half = generateListings data1 ?s g_half"
    by (simp add: nextYear_def pe m ns example_updateNeighborhoodYear applyEvent_def updateLeasesOneYear_def
        processBuildPhases_def handleMaturities_def applyOperatingCashFlow_def eq)
  have z: "''hotel'' \<in> set (zoning ?n)" by (simp add: year1_nb_def nb1_def)
  from example_generateListings [of ?s ?n, OF _ z] show ?thesis unfolding st by simp
qed


subsection \<open>The draws of a run\<close>

text \<open>Every operation leaves the generator it was given, advanced by the draws it made.\<close>

lemma advanced_refl [simp]: "advanced g g"
  unfolding advanced_def by (rule exI [of _ 0]) simp

lemma advanced_stl [simp]: "advanced g g' \<Longrightarrow> advanced g (stl g')"
  unfolding advanced_def
proof (elim exE)
  fix k assume "g' = sdrop k g"
  then have "stl g' = sdrop (Suc k) g" by simp
  then show "\<exists>k. stl g' = sdrop k g" by blast
qed


lemma draw_snd [simp]: "snd (draw g) = stl g"
  by (simp add: draw_def)

lemma randInt_adv: "randInt a b g = (x, g') \<Longrightarrow> g' = stl g"
  by (auto simp: randInt_def draw_def Let_def)

lemma makeMaturityYears_adv: "makeMaturityYears g = (x, g') \<Longrightarrow> g' = stl g"
  by (auto simp: makeMaturityYears_def draw_def Let_def)






























section \<open>The market and neighbourhood updates\<close>


lemma in_range_clamp: "lo \<le> hi \<Longrightarrow> in_range (clamp x lo hi) lo hi"
  by (simp add: in_range_def clamp_def)

lemma market_ok_alt:
  "market_ok m \<longleftrightarrow> in_range (baseRate m) 0 0.12 \<and> in_range (spread m) 0 0.08 \<and> in_range (liquidity m) 0.2 1.0"
  by (simp add: market_ok_def in_range_def)

lemma nbhd_ok_alt:
  "nbhd_ok n \<longleftrightarrow> in_range (demand n) 0.2 1.2 \<and> in_range (rentIndex n) 0.6 1.8
     \<and> in_range (vacancy n) 0.01 0.35 \<and> in_range (capRate n) 0.03 0.12"
  by (simp add: nbhd_ok_def in_range_def)

lemma market_ok_updateMarketYear: "market_ok (fst (updateMarketYear m g))"
  by (simp add: updateMarketYear_def market_ok_alt Let_def split_beta in_range_clamp)

lemma market_ok_applyEventToMarket: "market_ok (applyEventToMarket m ev)"
  by (simp add: applyEventToMarket_def market_ok_alt Let_def in_range_clamp)

lemma nbhd_ok_updateNeighborhoodYear: "nbhd_ok (fst (updateNeighborhoodYear n m g))"
  by (simp add: updateNeighborhoodYear_def nbhd_ok_alt Let_def split_beta in_range_clamp)

lemma nbhd_ok_applyEventToNeighborhood: "nbhd_ok n \<Longrightarrow> nbhd_ok (applyEventToNeighborhood n ev)"
  by (simp add: applyEventToNeighborhood_def nbhd_ok_alt Let_def in_range_clamp split: option.splits)

section \<open>The bounds invariant along a run\<close>

lemma updateNeighborhoods_loop_ok: "list_all nbhd_ok (fst (updateNeighborhoods_loop ns m g))"
proof (induction ns arbitrary: g)
  case Nil
  show ?case by simp
next
  case (Cons n ns)
  obtain n' rg g' where u: "updateNeighborhoodYear n m g = (n', rg, g')"
    by (cases "updateNeighborhoodYear n m g") auto
  then have "nbhd_ok n'" using nbhd_ok_updateNeighborhoodYear [of n m g] by simp
  then show ?case using Cons.IH [of g'] u by (simp add: split_beta)
qed

lemma market_ok_applyEvent: "market_ok (market s) \<Longrightarrow> market_ok (market (applyEvent s ev))"
  by (auto simp: applyEvent_def market_ok_applyEventToMarket split: option.splits)

lemma updateLeasesOneYear_env:
  "updateLeasesOneYear s g = Some (s', g') \<Longrightarrow> market s' = market s \<and> neighborhoods s' = neighborhoods s"
  by (auto simp: updateLeasesOneYear_def split: option.splits)

lemma processBuildPhases_env:
  "processBuildPhases s g = Some (s', g') \<Longrightarrow> market s' = market s \<and> neighborhoods s' = neighborhoods s"
  by (auto simp: processBuildPhases_def split: option.splits)

lemma attemptRefi_env:
  "attemptRefi s p byId g = Some (ok, s', p', g') \<Longrightarrow> market s' = market s \<and> neighborhoods s' = neighborhoods s"
  by (auto simp: attemptRefi_def Let_def split_beta split: option.splits if_splits)

lemma sellProperty_env:
  "sellProperty d s i = Some s' \<Longrightarrow> market s' = market s \<and> neighborhoods s' = neighborhoods s"
  by (auto simp: sellProperty_def Let_def split: option.splits)

lemma handleMaturities_loop_env:
  "handleMaturities_loop d s pre post g = Some (s', g') \<Longrightarrow>
     market s' = market s \<and> neighborhoods s' = neighborhoods s"
proof (induction post arbitrary: s pre g)
  case Nil
  then show ?case by auto
next
  case (Cons p post)
  show ?case
  proof (cases "matured s p")
    case False
    then show ?thesis using Cons.prems Cons.IH [of s "pre @ [p]" g] by simp
  next
    case True
    let ?s0 = "s\<lparr>properties := pre @ p # post\<rparr>"
    from Cons.prems True obtain ok s1 p1 g1 where
      a: "attemptRefi ?s0 p (productTypesById d) g = Some (ok, s1, p1, g1)"
      by (auto split: option.splits)
    have e1: "market s1 = market s \<and> neighborhoods s1 = neighborhoods s"
      using attemptRefi_env [OF a] by simp
    show ?thesis
    proof (cases ok)
      case True
      then have "handleMaturities_loop d s1 (pre @ [p1]) post g1 = Some (s', g')"
        using Cons.prems \<open>matured s p\<close> a by simp
      from Cons.IH [OF this] e1 show ?thesis by simp
    next
      case False
      from Cons.prems \<open>matured s p\<close> a False obtain s2 where
        b: "sellProperty d s1 (p_id p) = Some s2"
        and c: "handleMaturities_loop d (if cash s2 < 0 then s2\<lparr>cash := 0\<rparr> else s2)
                 (take (length pre) (properties (if cash s2 < 0 then s2\<lparr>cash := 0\<rparr> else s2))) post g1
                = Some (s', g')"
        by (auto simp: Let_def split: option.splits)
      from Cons.IH [OF c] sellProperty_env [OF b] e1 show ?thesis by (simp split: if_splits)
    qed
  qed
qed

lemma handleMaturities_env:
  "handleMaturities d s g = Some (s', g') \<Longrightarrow> market s' = market s \<and> neighborhoods s' = neighborhoods s"
  using handleMaturities_loop_env [of d s "[]" "properties s" g s' g']
  by (auto simp: handleMaturities_def Let_def split: if_splits)

lemma applyOperatingCashFlow_env:
  "applyOperatingCashFlow s byId = Some s' \<Longrightarrow> market s' = market s \<and> neighborhoods s' = neighborhoods s"
  by (auto simp: applyOperatingCashFlow_def split: option.splits)

lemma generateListings_env:
  "generateListings d s g = Some (s', g') \<Longrightarrow> market s' = market s \<and> neighborhoods s' = neighborhoods s"
  by (auto simp: generateListings_def split: option.splits)

lemma nextYear_bounds:
  assumes "nextYear d s g = Some (s', g')"
  shows "market_ok (market s') \<and> list_all nbhd_ok (neighborhoods s')"
proof -
  obtain ev g1 where pe: "pickEvent (events d) g = (ev, g1)"
    by (cases "pickEvent (events d) g") auto
  let ?s1 = "s\<lparr>year := year s + 1\<rparr>"
  obtain m g2 where um: "updateMarketYear (market ?s1) g1 = (m, g2)"
    by (cases "updateMarketYear (market ?s1) g1") auto
  let ?s3 = "applyEvent (?s1\<lparr>market := m\<rparr>) ev"
  obtain ns g3 where un: "updateNeighborhoods_loop (neighborhoods ?s3) (market ?s3) g2 = (ns, g3)"
    by (cases "updateNeighborhoods_loop (neighborhoods ?s3) (market ?s3) g2") auto
  let ?s4 = "?s3\<lparr>neighborhoods := ns\<rparr>"
  have mk: "market_ok (market ?s4)"
    using market_ok_updateMarketYear [of "market ?s1" g1] um
      market_ok_applyEvent [of "?s1\<lparr>market := m\<rparr>" ev] by simp
  have nk: "list_all nbhd_ok (neighborhoods ?s4)"
    using updateNeighborhoods_loop_ok [of "neighborhoods ?s3" "market ?s3" g2] un by simp
  from assms obtain s5 g4 s6 g5 s7 g6 s8 where
    st: "updateLeasesOneYear ?s4 g3 = Some (s5, g4)" "processBuildPhases s5 g4 = Some (s6, g5)"
      "handleMaturities d s6 g5 = Some (s7, g6)" "applyOperatingCashFlow s7 (productTypesById d) = Some s8"
      "generateListings d s8 g6 = Some (s', g')"
    unfolding nextYear_def Let_def pe um un prod.case
    by (auto split: option.splits)
  have "market s' = market ?s4 \<and> neighborhoods s' = neighborhoods ?s4"
    using updateLeasesOneYear_env [OF st(1)] processBuildPhases_env [OF st(2)]
      handleMaturities_env [OF st(3)] applyOperatingCashFlow_env [OF st(4)]
      generateListings_env [OF st(5)] by simp
  then show ?thesis using mk nk by simp
qed

lemma newRun_env:
  "market (newRun d st) = market RUN_DEFAULTS
   \<and> neighborhoods (newRun d st) = map (\<lambda>n. n\<lparr>demand := baseDemand n\<rparr>) (d_neighborhoods d)"
  by (simp add: newRun_def Let_def RUN_DEFAULTS_def)

lemma market_ok_RUN_DEFAULTS: "market_ok (market RUN_DEFAULTS)"
  by (simp add: market_ok_def RUN_DEFAULTS_def)

lemma initRun_ok:
  assumes "data_ok d" "forceNew \<or> saved = None" "initRun lib d st forceNew saved r = Some (s, g)"
  shows "state_ok s"
proof -
  have "generateListings d (newRun d st) (makeRng lib (seed st) r) = Some (s, g)"
    using assms(2,3) by (auto simp: initRun_def Let_def)
  from generateListings_env [OF this] have "market s = market RUN_DEFAULTS"
    "neighborhoods s = map (\<lambda>n. n\<lparr>demand := baseDemand n\<rparr>) (d_neighborhoods d)"
    using newRun_env [of d st] by simp_all
  then show ?thesis using assms(1) market_ok_RUN_DEFAULTS
    by (simp add: state_ok_def data_ok_def list_all_iff)
qed

lemma buyListing_env:
  "buyListing s l g = Some (s', g') \<Longrightarrow> market s' = market s \<and> neighborhoods s' = neighborhoods s"
  by (auto simp: buyListing_def Let_def split_beta initLeaseForProperty_def getNeighborhood_def split: option.splits if_splits)

lemma startBuild_env:
  "startBuild d s n pt g = Some (out, s', g') \<Longrightarrow> market s' = market s \<and> neighborhoods s' = neighborhoods s"
  by (auto simp: startBuild_def Let_def split_beta split: option.splits if_splits)

lemma renovateProperty_env:
  "renovateProperty d s i = Some (out, s') \<Longrightarrow> market s' = market s \<and> neighborhoods s' = neighborhoods s"
  by (auto simp: renovateProperty_def Let_def split: option.splits if_splits)

lemma perform_ok:
  assumes "state_ok s" "perform d (s, g) a = Some (s', g')"
  shows "state_ok s'"
proof (cases a)
  case (Buy i)
  then show ?thesis using assms buyListing_env
    by (auto simp: state_ok_def split: option.splits)
next
  case (StartBuild n pt)
  then show ?thesis using assms startBuild_env
    by (auto simp: state_ok_def split: option.splits)
next
  case (Sell i)
  then show ?thesis using assms sellProperty_env
    by (auto simp: state_ok_def split: option.splits)
next
  case (Renovate i)
  then show ?thesis using assms renovateProperty_env
    by (auto simp: state_ok_def split: option.splits)
next
  case NextYear
  then show ?thesis using assms nextYear_bounds [of d s g s' g']
    by (simp add: state_ok_def)
qed

lemma play_ok:
  assumes "play d acts (Some (s, g)) = Some (s', g')" "state_ok s"
  shows "state_ok s'"
  using assms
proof (induction acts arbitrary: s g)
  case Nil
  then show ?case by simp
next
  case (Cons a acts)
  from Cons.prems(1) obtain s1 g1 where p: "perform d (s, g) a = Some (s1, g1)"
    and q: "play d acts (Some (s1, g1)) = Some (s', g')"
    by (cases "perform d (s, g) a") (auto split: option.splits; cases acts; simp)+
  from perform_ok [OF Cons.prems(2) p] Cons.IH [OF q] show ?case by simp
qed

lemma findIndex_less: "findIndex P xs = Some i \<Longrightarrow> i < length xs"
proof (induction xs arbitrary: i)
  case Nil
  then show ?case by simp
next
  case (Cons x xs)
  then show ?case by (auto split: if_splits option.splits)
qed

lemma applyEvent_nbhds_ok:
  assumes "list_all nbhd_ok (neighborhoods s)"
  shows "list_all nbhd_ok (neighborhoods (applyEvent s ev))"
proof -
  have "list_all nbhd_ok ((neighborhoods s)[i := applyEventToNeighborhood (neighborhoods s ! i) e])"
    if "i < length (neighborhoods s)" for i e
    using assms that nbhd_ok_applyEventToNeighborhood [of "neighborhoods s ! i" e]
    by (auto simp: list_all_length nth_list_update)
  then show ?thesis using assms
    by (auto simp: applyEvent_def dest: findIndex_less split: option.splits)
qed

lemma applyEvent_ok: "state_ok s \<Longrightarrow> state_ok (applyEvent s ev)"
  by (simp add: state_ok_def applyEvent_nbhds_ok market_ok_applyEvent)

lemma example_makeListing_hot:
  "makeListing data_hot (RUN_DEFAULTS\<lparr>neighborhoods := [nb_hot\<lparr>demand := 3 / 2\<rparr>], cash := c\<rparr>) i g_half =
     Some (Some (listing0 i), g_half)"
  by (simp add: makeListing_def nth_opt_def draw_def clamp_def round_def example_show_int example_show_digits
      data_hot_def nb_hot_def example_defs listing0_def Let_def)

lemma example_initRun_hot: "initRun lib1 data_hot settings1 True None r = Some (run_hot, g_half)"
proof -
  have n: "map (\<lambda>n. n\<lparr>demand := baseDemand n\<rparr>) (d_neighborhoods data_hot) = [nb_hot\<lparr>demand := 3 / 2\<rparr>]"
    by (simp add: data_hot_def nb_hot_def nb1_def)
  have g: "makeRng lib1 (Some ''abc'') r = g_half"
    by (simp add: makeRng_def lib1_def g_half_def)
  show ?thesis
    by (simp add: initRun_def newRun_def n g settings1_def generateListings_def example_makeListing_hot run0_def run_hot_def Let_def)
qed

text \<open>
  The claim does not hold of every run. A run created from reference data whose
  neighbourhood has the anchor demand 1.5 starts with that demand; in its first yearly
  advance the event is applied before the neighbourhoods are updated, and an event that
  carries only a rent delta leaves the demand at 1.5, outside \<open>[0.2, 1.2]\<close>.
\<close>

theorem bounds_invariant_counterexample:
  "initRun lib1 data_hot settings1 True None (1 / 2) = Some (run_hot, g_half)
   \<and> pickEvent (events data_hot) g_half = (Some ev_rent, g_half)
   \<and> neighborhoods (applyEvent (run_hot\<lparr>year := 2, market := fst (updateMarketYear (market run_hot) g_half)\<rparr>)
        (Some ev_rent)) = [nb_hot\<lparr>demand := 3 / 2, rentIndex := 11 / 10\<rparr>]
   \<and> applyEventToNeighborhood (nb_hot\<lparr>demand := 3 / 2\<rparr>) ev_rent = nb_hot\<lparr>demand := 3 / 2, rentIndex := 11 / 10\<rparr>
   \<and> \<not> nbhd_ok (applyEventToNeighborhood (nb_hot\<lparr>demand := 3 / 2\<rparr>) ev_rent)"
proof -
  have pe: "pickEvent (events data_hot) g_half = (Some ev_rent, g_half)"
    by (simp add: pickEvent_def draw_def nth_opt_def data_hot_def g_half_def)
  have ae: "applyEventToNeighborhood (nb_hot\<lparr>demand := 3 / 2\<rparr>) ev_rent = nb_hot\<lparr>demand := 3 / 2, rentIndex := 11 / 10\<rparr>"
    by (simp add: applyEventToNeighborhood_def effects_of_def ev_rent_def no_effects_def nb_hot_def nb1_def clamp_def)
  have st: "neighborhoods (applyEvent (run_hot\<lparr>year := 2, market := fst (updateMarketYear (market run_hot) g_half)\<rparr>)
        (Some ev_rent)) = [applyEventToNeighborhood (nb_hot\<lparr>demand := 3 / 2\<rparr>) ev_rent]"
    by (simp add: applyEvent_def run_hot_def ev_rent_def nb_hot_def nb1_def)
  have no: "\<not> nbhd_ok (nb_hot\<lparr>demand := 3 / 2, rentIndex := 11 / 10\<rparr>)"
    by (simp add: nbhd_ok_def)
  show ?thesis using example_initRun_hot pe ae st no by simp
qed

text \<open>
  Claim C1, as amended. After \<open>updateMarketYear\<close>, \<open>applyEventToMarket\<close> and
  \<open>updateNeighborhoodYear\<close> every bounded field lies in its declared domain, whatever the
  state before, the event deltas and the random draws were. \<open>applyEventToNeighborhood\<close>
  clamps the fields whose delta is present and leaves the others as they are: from a
  neighbourhood within its domains it yields a neighbourhood within its domains, for
  arbitrary deltas. After every yearly advance the market and all neighbourhoods are within
  their domains, whatever the state before it was. In a run created from reference data
  whose neighbourhoods are within the domains (the anchor demand within the domain of the
  demand), every state reached by the player's actions is within the domains, and so is the
  state that the event application of the next yearly advance leaves, for every event.
\<close>

theorem bounds_invariant:
  "market_ok (fst (updateMarketYear m g))
   \<and> market_ok (applyEventToMarket m ev)
   \<and> nbhd_ok (fst (updateNeighborhoodYear n m g))
   \<and> (nbhd_ok n \<longrightarrow> nbhd_ok (applyEventToNeighborhood n ev))
   \<and> (nextYear d s g = Some (s', g') \<longrightarrow> state_ok s')
   \<and> (data_ok d \<and> (forceNew \<or> saved = None)
        \<and> play d acts (initRun lib d settings forceNew saved r) = Some (s1, g1) \<longrightarrow>
          state_ok s1
          \<and> state_ok (applyEvent (s1\<lparr>year := year s1 + 1, market := fst (updateMarketYear (market s1) g2)\<rparr>) event))"
proof -
  have a: "state_ok s'" if "nextYear d s g = Some (s', g')"
    using nextYear_bounds [OF that] by (simp add: state_ok_def)
  have b: "state_ok s1 \<and> state_ok (applyEvent (s1\<lparr>year := year s1 + 1, market := fst (updateMarketYear (market s1) g2)\<rparr>) event)"
    if h: "data_ok d" "forceNew \<or> saved = None"
      "play d acts (initRun lib d settings forceNew saved r) = Some (s1, g1)"
  proof -
    from h(3) obtain s0 g0 where i: "initRun lib d settings forceNew saved r = Some (s0, g0)"
      by (cases "initRun lib d settings forceNew saved r"; cases acts) auto
    have ok: "state_ok s1" using play_ok [of d acts s0 g0 s1 g1] h(3) i initRun_ok [OF h(1,2) i] by simp
    then have "state_ok (s1\<lparr>year := year s1 + 1, market := fst (updateMarketYear (market s1) g2)\<rparr>)"
      by (simp add: state_ok_def market_ok_updateMarketYear)
    from applyEvent_ok [OF this] ok show ?thesis by simp
  qed
  show ?thesis using a b
    by (simp add: market_ok_updateMarketYear market_ok_applyEventToMarket
      nbhd_ok_updateNeighborhoodYear nbhd_ok_applyEventToNeighborhood)
qed

lemma data_ok_data1: "data_ok data1"
  by (simp add: data_ok_def data1_def nb1_def nbhd_ok_def)

theorem bounds_invariant_witness:
  "nbhd_ok n0 \<and> nbhd_ok (applyEventToNeighborhood n0 ev0)
   \<and> demand (applyEventToNeighborhood n0 ev0) = 1.2
   \<and> rentIndex (applyEventToNeighborhood n0 ev0) = 1.8
   \<and> capRate (applyEventToNeighborhood n0 ev0) = 0.03
   \<and> data_ok data1
   \<and> (\<exists>s. nextYear data1 run0 g_half = Some (s, g_half)
         \<and> play data1 [NextYear] (initRun lib1 data1 settings1 True None (1 / 2)) = Some (s, g_half)
         \<and> state_ok s
         \<and> state_ok (applyEvent (s\<lparr>year := year s + 1, market := fst (updateMarketYear (market s) g_half)\<rparr>)
              (Some ev0)))"
proof -
  have ok: "nbhd_ok n0" by (simp add: nbhd_ok_def n0_def)
  from example_nextYear obtain s where y: "nextYear data1 run0 g_half = Some (s, g_half)" by blast
  have p: "play data1 [NextYear] (initRun lib1 data1 settings1 True None (1 / 2)) = Some (s, g_half)"
    by (simp add: example_initRun y)
  note t = bounds_invariant [where n = n0 and ev = ev0 and d = data1 and s = run0 and g = g_half
      and s' = s and g' = g_half and forceNew = True and saved = None and acts = "[NextYear]"
      and lib = lib1 and settings = settings1 and r = "1 / 2" and ?s1.0 = s and ?g1.0 = g_half
      and event = "Some ev0" and ?g2.0 = g_half]
  have 1: "nbhd_ok (applyEventToNeighborhood n0 ev0)" using t ok by blast
  have 2: "state_ok s" using t y by blast
  have 4: "state_ok (applyEvent (s\<lparr>year := year s + 1, market := fst (updateMarketYear (market s) g_half)\<rparr>)
              (Some ev0))" using t p data_ok_data1 by blast
  have 3: "demand (applyEventToNeighborhood n0 ev0) = 1.2"
    "rentIndex (applyEventToNeighborhood n0 ev0) = 1.8"
    "capRate (applyEventToNeighborhood n0 ev0) = 0.03"
    by (simp_all add: applyEventToNeighborhood_def effects_of_def ev0_def n0_def no_effects_def clamp_def)
  show ?thesis using ok 1 2 3 4 y p data_ok_data1 by blast
qed

end
